theory Spec2Isabelle
  imports Main "HOL-Library.AList"
begin

section \<open>Identifiers\<close>

text \<open>
  Modelled from the spec: the identifier types (scheme root, issuer, credential type,
  attribute) and their accessors are declared outside the two source files. The spec
  describes an identifier as a dot-structured string in which each level's string form
  is the parent's string form plus one \<open>.segment\<close>. Every identifier is therefore
  represented by its string form; \<open>Root\<close> is the text before the first dot and
  \<open>Parent\<close> the text before the last dot. The spec gives no parent to a string
  without a dot; \<open>Parent\<close> returns the empty string there.
\<close>

type_synonym IssuerIdentifier = string
type_synonym CredentialTypeIdentifier = string
type_synonym AttributeTypeIdentifier = string

definition String :: "string \<Rightarrow> string" where
  "String ident = ident"

definition Root :: "string \<Rightarrow> string" where
  "Root ident = takeWhile (\<lambda>c. c \<noteq> CHR ''.'') ident"

definition Parent :: "string \<Rightarrow> string" where
  "Parent ident = rev (drop 1 (dropWhile (\<lambda>c. c \<noteq> CHR ''.'') (rev ident)))"

definition NewIssuerIdentifier :: "string \<Rightarrow> IssuerIdentifier" where
  "NewIssuerIdentifier s = s"

definition IssuerIdentifier :: "CredentialTypeIdentifier \<Rightarrow> IssuerIdentifier" where
  "IssuerIdentifier ident = NewIssuerIdentifier (Parent ident)"

definition CredentialTypeIdentifier :: "AttributeTypeIdentifier \<Rightarrow> CredentialTypeIdentifier" where
  "CredentialTypeIdentifier attr = Parent attr"

text \<open>
  Modelled from the spec: \<open>Action\<close> is a string type whose three session constants
  are declared outside the source files; the spec names the action kinds disclosing,
  signing, issuing and removal, and the removal constant below is the one of
  \<open>logs.go\<close>.
\<close>

type_synonym Action = string

definition ActionDisclosing :: Action where
  "ActionDisclosing = ''disclosing''"

definition ActionSigning :: Action where
  "ActionSigning = ''signing''"

definition ActionIssuing :: Action where
  "ActionIssuing = ''issuing''"

definition actionRemoval :: Action where
  "actionRemoval = ''removal''"

section \<open>Permissions and requestors\<close>

text \<open>
  Modelled from the spec: the authentication method tags (none, public key, preshared
  token) are declared outside the source files and the spec leaves their spelling open.
  A requestor may carry any other tag, which \<open>AuthenticationMethodOther\<close> stands for.
\<close>

datatype AuthenticationMethod =
    AuthenticationMethodNone
  | AuthenticationMethodPublicKey
  | AuthenticationMethodToken
  | AuthenticationMethodOther string

record Permissions =
  Disclosing :: "string list"
  Signing :: "string list"
  Issuing :: "string list"

record Requestor = Permissions +
  AuthenticationMethod :: AuthenticationMethod
  AuthenticationKey :: string

text \<open>
  A credential request and an attribute disjunction, with the fields the decision
  procedures and the tests use. Both Go types have a field \<open>Attributes\<close>; the
  unqualified name is the disjunction's.
\<close>

record CredentialRequest =
  CredentialTypeID :: CredentialTypeIdentifier
  Attributes :: "(string \<times> string) list"

record AttributeDisjunction =
  Label :: string
  Attributes :: "AttributeTypeIdentifier list"

text \<open>
  The server configuration. \<open>Requestors\<close> is a Go map that \<open>initialize\<close> ranges
  over: it is an association list, whose order is the iteration order of one run, and
  whose lookup is \<open>map_of\<close>. \<open>Logger\<close> is the sequence of messages written to
  the embedded server configuration's logger. The parsed key is \<open>None\<close> for nil.
\<close>

datatype LogLevel = Warn | Info

type_synonym PrivateKey = string

record Configuration =
  Logger :: "(LogLevel \<times> string) list"
  DisableRequestorAuthentication :: bool
  Port :: int
  RequestorsString :: string
  Requestors :: "(string \<times> Requestor) list"
  GlobalPermissionsString :: string
  GlobalPermissions :: Permissions
  JwtIssuer :: string
  JwtPrivateKey :: string
  jwtPrivateKey :: "PrivateKey option"

text \<open>Indexing a Go map with an absent key yields the zero value of the element type.\<close>

definition zero_Requestor :: Requestor where
  "zero_Requestor = \<lparr>Disclosing = [], Signing = [], Issuing = [],
     AuthenticationMethod = AuthenticationMethodOther [], AuthenticationKey = []\<rparr>"

definition Requestors_index :: "Configuration \<Rightarrow> string \<Rightarrow> Requestor" where
  "Requestors_index conf requestor =
     (case map_of (Requestors conf) requestor of None \<Rightarrow> zero_Requestor | Some r \<Rightarrow> r)"

fun contains :: "string list \<Rightarrow> string \<Rightarrow> bool" where
  "contains [] query = False"
| "contains (s # strings) query = (if s = query then True else contains strings query)"

subsection \<open>CanIssue\<close>

fun CanIssue_loop :: "string list \<Rightarrow> CredentialRequest list \<Rightarrow> bool \<times> string" where
  "CanIssue_loop permissions [] = (True, [])"
| "CanIssue_loop permissions (cred # creds) =
     (let ident = CredentialTypeID cred in
      if contains permissions ''*'' \<or>
         contains permissions (Root ident @ ''.*'') \<or>
         contains permissions (String (IssuerIdentifier ident) @ ''.*'') \<or>
         contains permissions (String ident)
      then CanIssue_loop permissions creds
      else (False, String ident))"

definition CanIssue :: "Configuration \<Rightarrow> string \<Rightarrow> CredentialRequest list \<Rightarrow> bool \<times> string" where
  "CanIssue conf requestor creds =
     (let permissions = Issuing (Requestors_index conf requestor) @ Issuing (GlobalPermissions conf) in
      if length permissions = 0 then (False, [])
      else CanIssue_loop permissions creds)"

subsection \<open>CanVerifyOrSign\<close>

fun CanVerifyOrSign_attrs :: "string list \<Rightarrow> AttributeTypeIdentifier list \<Rightarrow> string option" where
  "CanVerifyOrSign_attrs permissions [] = None"
| "CanVerifyOrSign_attrs permissions (attr # attrs) =
     (if contains permissions ''*'' \<or>
         contains permissions (Root attr @ ''.*'') \<or>
         contains permissions (String (IssuerIdentifier (CredentialTypeIdentifier attr)) @ ''.*'') \<or>
         contains permissions (String (CredentialTypeIdentifier attr) @ ''.*'') \<or>
         contains permissions (String attr)
      then CanVerifyOrSign_attrs permissions attrs
      else Some (String attr))"

fun CanVerifyOrSign_loop :: "string list \<Rightarrow> AttributeDisjunction list \<Rightarrow> bool \<times> string" where
  "CanVerifyOrSign_loop permissions [] = (True, [])"
| "CanVerifyOrSign_loop permissions (disjunction # disjunctions) =
     (case CanVerifyOrSign_attrs permissions (Attributes disjunction) of
        Some offending \<Rightarrow> (False, offending)
      | None \<Rightarrow> CanVerifyOrSign_loop permissions disjunctions)"

definition CanVerifyOrSign ::
  "Configuration \<Rightarrow> string \<Rightarrow> Action \<Rightarrow> AttributeDisjunction list \<Rightarrow> bool \<times> string" where
  "CanVerifyOrSign conf requestor action disjunctions =
     (let permissions =
        (if action = ActionDisclosing then
           Disclosing (Requestors_index conf requestor) @ Disclosing (GlobalPermissions conf)
         else if action = ActionIssuing then
           Disclosing (Requestors_index conf requestor) @ Disclosing (GlobalPermissions conf)
         else if action = ActionSigning then
           Signing (Requestors_index conf requestor) @ Signing (GlobalPermissions conf)
         else [])
      in
      if length permissions = 0 then (False, [])
      else CanVerifyOrSign_loop permissions disjunctions)"

subsection \<open>The decision procedures in the words of the specification\<close>

text \<open>
  The matching rule as the specification words it, for whole credential types
  (issuance) and for attributes (disclosure and signing), and the first identifier of
  a list that the rule rejects.
\<close>

definition issuance_match :: "string list \<Rightarrow> CredentialTypeIdentifier \<Rightarrow> bool" where
  "issuance_match permissions ident =
     (''*'' \<in> set permissions \<or>
      Root ident @ ''.*'' \<in> set permissions \<or>
      String (IssuerIdentifier ident) @ ''.*'' \<in> set permissions \<or>
      String ident \<in> set permissions)"

definition attribute_match :: "string list \<Rightarrow> AttributeTypeIdentifier \<Rightarrow> bool" where
  "attribute_match permissions attr =
     (''*'' \<in> set permissions \<or>
      Root attr @ ''.*'' \<in> set permissions \<or>
      String (IssuerIdentifier (CredentialTypeIdentifier attr)) @ ''.*'' \<in> set permissions \<or>
      String (CredentialTypeIdentifier attr) @ ''.*'' \<in> set permissions \<or>
      String attr \<in> set permissions)"

definition first_denied :: "(string \<Rightarrow> bool) \<Rightarrow> string list \<Rightarrow> bool \<times> string" where
  "first_denied permitted idents =
     (case dropWhile permitted idents of
        [] \<Rightarrow> (True, [])
      | ident # _ \<Rightarrow> (False, String ident))"

definition issuing_permissions :: "Configuration \<Rightarrow> string \<Rightarrow> string list" where
  "issuing_permissions conf requestor =
     Issuing (Requestors_index conf requestor) @ Issuing (GlobalPermissions conf)"

definition disclosing_permissions :: "Configuration \<Rightarrow> string \<Rightarrow> string list" where
  "disclosing_permissions conf requestor =
     Disclosing (Requestors_index conf requestor) @ Disclosing (GlobalPermissions conf)"

definition signing_permissions :: "Configuration \<Rightarrow> string \<Rightarrow> string list" where
  "signing_permissions conf requestor =
     Signing (Requestors_index conf requestor) @ Signing (GlobalPermissions conf)"

definition listed_attributes :: "AttributeDisjunction list \<Rightarrow> AttributeTypeIdentifier list" where
  "listed_attributes disjunctions = concat (map Attributes disjunctions)"

section \<open>Initialization of the configuration\<close>

text \<open>
  Errors are values: a returned Go error carries its message, the two failures of the
  standard JSON decoder used below have names of their own, \<open>ExternalError\<close> is an
  error reported by a collaborator outside the source files, and \<open>Panic\<close> is a
  run-time panic (a failed type assertion, a nil dereference).
\<close>

datatype error =
    Error string
  | InvalidUnmarshalError
  | SyntaxError
  | ExternalError string
  | Panic

text \<open>
  The message of \<open>errors.Errorf\<close> is that of \<open>fmt.Sprintf\<close>. Only the verb
  \<open>%s\<close> with string operands is modelled: an operand is substituted for each verb in
  turn, and a verb that has no operand left is printed as \<open>%!s(MISSING)\<close>.
\<close>

fun Sprintf :: "string \<Rightarrow> string list \<Rightarrow> string" where
  "Sprintf [] args = []"
| "Sprintf [c] args = [c]"
| "Sprintf (c # d # fmt) args =
     (if c = CHR ''%'' \<and> d = CHR ''s'' then
        (case args of
           [] \<Rightarrow> ''%!s(MISSING)'' @ Sprintf fmt []
         | a # rest \<Rightarrow> a @ Sprintf fmt rest)
      else c # Sprintf (d # fmt) args)"

definition Errorf :: "string \<Rightarrow> string list \<Rightarrow> error" where
  "Errorf fmt args = Error (Sprintf fmt args)"

definition HasPrefix :: "string \<Rightarrow> string \<Rightarrow> bool" where
  "HasPrefix s pre = (take (length pre) s = pre)"

text \<open>
  The authenticator strategies held by the registry, with the lookup tables the source
  creates them with. The registry is the package-level map \<open>authenticators\<close>; it is
  part of the state that \<open>initialize\<close> transforms.
\<close>

type_synonym PublicKey = string

datatype Authenticator =
    NilAuthenticator
  | PublicKeyAuthenticator "(string \<times> PublicKey) list"
  | PresharedKeyAuthenticator "(string \<times> string) list"

type_synonym registry = "(AuthenticationMethod \<times> Authenticator) list"

text \<open>
  Modelled from the spec: what \<open>initialize\<close> calls outside the source files is taken
  as a parameter. The file system and the PEM parser serve \<open>readPrivateKey\<close>;
  \<open>Authenticator_Initialize\<close> is the \<open>Initialize\<close> method of the strategies, which
  registers the requestor's key material in the strategy or fails on a malformed key: it
  returns the error, if any, and the strategy as the call leaves it.
\<close>

record environment =
  AssertPathExists :: "string \<Rightarrow> error option"
  ReadFile :: "string \<Rightarrow> error + string"
  ParseRSAPrivateKeyFromPEM :: "string \<Rightarrow> error + PrivateKey"
  Authenticator_Initialize :: "Authenticator \<Rightarrow> string \<Rightarrow> Requestor \<Rightarrow> error option \<times> Authenticator"

definition ParseRSAPrivateKey :: "environment \<Rightarrow> Configuration \<Rightarrow> string \<Rightarrow> error option \<times> Configuration" where
  "ParseRSAPrivateKey env conf keybytes =
     (case ParseRSAPrivateKeyFromPEM env keybytes of
        Inl err \<Rightarrow> (Some err, conf\<lparr>jwtPrivateKey := None\<rparr>)
      | Inr k \<Rightarrow> (None, conf\<lparr>jwtPrivateKey := Some k\<rparr>))"

definition readPrivateKey :: "environment \<Rightarrow> Configuration \<Rightarrow> error option \<times> Configuration" where
  "readPrivateKey env conf =
     (if JwtPrivateKey conf = [] then (None, conf)
      else if HasPrefix (JwtPrivateKey conf) ''-----BEGIN'' then
        ParseRSAPrivateKey env conf (JwtPrivateKey conf)
      else
        (case AssertPathExists env (JwtPrivateKey conf) of
           Some err \<Rightarrow> (Some err, conf)
         | None \<Rightarrow>
            (case ReadFile env (JwtPrivateKey conf) of
               Inl err \<Rightarrow> (Some err, conf)
             | Inr keybytes \<Rightarrow> ParseRSAPrivateKey env conf keybytes)))"

definition Logger_write :: "LogLevel \<Rightarrow> string \<Rightarrow> Configuration \<Rightarrow> Configuration" where
  "Logger_write level msg conf = conf\<lparr>Logger := Logger conf @ [(level, msg)]\<rparr>"

definition default_Disclosing :: "Configuration \<Rightarrow> Configuration" where
  "default_Disclosing conf =
     (if length (Disclosing (GlobalPermissions conf)) = 0 then
        (Logger_write Info ''No disclosing whitelist found: allowing verification of any attribute'' conf)
          \<lparr>GlobalPermissions := (GlobalPermissions conf)\<lparr>Disclosing := [''*'']\<rparr>\<rparr>
      else conf)"

definition default_Signing :: "Configuration \<Rightarrow> Configuration" where
  "default_Signing conf =
     (if length (Signing (GlobalPermissions conf)) = 0 then
        (Logger_write Info ''No signing whitelist found: allowing attribute-based signature sessions with any attribute'' conf)
          \<lparr>GlobalPermissions := (GlobalPermissions conf)\<lparr>Signing := [''*'']\<rparr>\<rparr>
      else conf)"

definition default_Issuing :: "Configuration \<Rightarrow> Configuration" where
  "default_Issuing conf =
     (if length (Issuing (GlobalPermissions conf)) = 0 then
        (Logger_write Info ''No issuance whitelist found: allowing issuance of any credential (for which private keys are installed)'' conf)
          \<lparr>GlobalPermissions := (GlobalPermissions conf)\<lparr>Issuing := [''*'']\<rparr>\<rparr>
      else conf)"

text \<open>
  The loop over the requestors. An authenticator is held by pointer, so what
  \<open>Initialize\<close> does to it is written back to the registry.
\<close>

fun initialize_loop :: "environment \<Rightarrow> (string \<times> Requestor) list \<Rightarrow> registry \<Rightarrow> error option \<times> registry" where
  "initialize_loop env [] authenticators = (None, authenticators)"
| "initialize_loop env ((name, requestor) # rest) authenticators =
     (case map_of authenticators (AuthenticationMethod requestor) of
        None \<Rightarrow>
          (Some (Errorf ''Requestor %s has unsupported authentication type'' []), authenticators)
      | Some authenticator \<Rightarrow>
          (case Authenticator_Initialize env authenticator name requestor of
             (Some err, authenticator') \<Rightarrow>
               (Some err, AList.update (AuthenticationMethod requestor) authenticator' authenticators)
           | (None, authenticator') \<Rightarrow>
               initialize_loop env rest
                 (AList.update (AuthenticationMethod requestor) authenticator' authenticators)))"

definition initialize ::
  "environment \<Rightarrow> Configuration \<times> registry \<Rightarrow> error option \<times> Configuration \<times> registry" where
  "initialize env state =
     (case state of (conf0, authenticators0) \<Rightarrow>
      (case readPrivateKey env conf0 of
         (Some err, conf) \<Rightarrow> (Some err, conf, authenticators0)
       | (None, conf) \<Rightarrow>
          if DisableRequestorAuthentication conf then
            (None,
             default_Issuing (default_Signing (default_Disclosing
               (Logger_write Warn ''Authentication of incoming session requests disabled'' conf))),
             [(AuthenticationMethodNone, NilAuthenticator)])
          else
            (case initialize_loop env (Requestors conf)
                    [(AuthenticationMethodPublicKey, PublicKeyAuthenticator []),
                     (AuthenticationMethodToken, PresharedKeyAuthenticator [])] of
               (err, authenticators) \<Rightarrow> (err, conf, authenticators))))"

section \<open>Session log entries\<close>

text \<open>
  Arbitrary-precision integers are \<open>int\<close> (a nil pointer to one is outside the
  model). \<open>Bytes\<close> is the big-endian byte string of the absolute value, without
  leading zero bytes, and the conversion of the bytes to a Go string keeps them as they
  are.
\<close>

fun nat_bytes :: "nat \<Rightarrow> string" where
  "nat_bytes n = (if n = 0 then [] else nat_bytes (n div 256) @ [char_of (n mod 256)])"

declare nat_bytes.simps [simp del]

definition Bytes :: "int \<Rightarrow> string" where
  "Bytes x = nat_bytes (nat \<bar>x\<bar>)"

type_synonym Timestamp = int

type_synonym TranslatedString = "string \<rightharpoonup> string"

text \<open>
  The proof structures of the cryptographic library, as far as the log entry reads
  them: a disclosure proof with its map of disclosed attributes, any other proof
  variant, a proof list, and an issuance-commitment message with its proofs.
\<close>

record ProofD =
  ADisclosed :: "int \<rightharpoonup> int"

datatype Proof =
    ProofD_ptr ProofD
  | ProofOther

record IssueCommitmentMessage =
  Proofs :: "Proof list"

text \<open>
  A value of the empty interface type, by its dynamic type: nil, a \<open>gabi.ProofList\<close>,
  a slice \<open>[]*gabi.ProofD\<close> (not a pointer), a pointer
  \<open>*gabi.IssueCommitmentMessage\<close> (represented by what it points to), or a value of
  any other type.
\<close>

datatype Response =
    NilValue
  | ProofList "Proof list"
  | ProofDSlice "ProofD list"
  | IssueCommitmentMessage_ptr IssueCommitmentMessage
  | OtherValue

text \<open>
  The records of the encoded form come first, so that the unqualified field names
  are those of \<open>SessionInfo\<close> and \<open>LogEntry\<close>. Maps that the code ranges over are
  association lists; a nil map and an empty map are both the empty map, a nil byte
  slice and an empty one both the empty list, and a nil \<open>SessionInfo\<close> pointer is
  \<open>None\<close>. The key type of \<open>logSessionInfo.Keys\<close> is the one \<open>MarshalJSON\<close>
  creates the map with, \<open>map[string]int\<close>.
\<close>

record logSessionInfo =
  Jwt :: string
  Nonce :: int
  Context :: int
  Keys :: "(string \<times> int) list"

record jsonLogEntry =
  Type :: Action
  Time :: Timestamp
  SessionInfo :: "logSessionInfo option"
  Disclosed :: "CredentialTypeIdentifier \<rightharpoonup> (int \<rightharpoonup> TranslatedString)"
  Received :: "CredentialTypeIdentifier \<rightharpoonup> TranslatedString list"
  Removed :: "CredentialTypeIdentifier \<rightharpoonup> TranslatedString list"
  SignedMessage :: string
  SignedMessageType :: string
  Response :: string

record SessionInfo =
  Jwt :: string
  Nonce :: int
  Context :: int
  Keys :: "(IssuerIdentifier \<times> int) list"

record LogEntry =
  Type :: Action
  Time :: Timestamp
  SessionInfo :: "SessionInfo option"
  Disclosed :: "CredentialTypeIdentifier \<rightharpoonup> (int \<rightharpoonup> TranslatedString)"
  Received :: "CredentialTypeIdentifier \<rightharpoonup> TranslatedString list"
  Removed :: "CredentialTypeIdentifier \<rightharpoonup> TranslatedString list"
  SignedMessage :: string
  SignedMessageType :: string
  response :: Response
  rawResponse :: string

subsection \<open>The session and its collaborators\<close>

text \<open>
  The requestor JWT of a session by its dynamic type, with the request fields that
  \<open>createLogEntry\<close> reads through \<open>Request.Request\<close>: a pointer to a
  signature requestor's JWT, a pointer to an identity provider's JWT, or a value of any
  other dynamic type (nil among them), on which both type assertions of the source
  panic.
\<close>

record SignatureRequest =
  Message :: string
  MessageType :: string

record IssuanceRequest =
  Credentials :: "CredentialRequest list"

datatype RequestorJwt =
    SignatureRequestorJwt SignatureRequest
  | IdentityProviderJwt IssuanceRequest
  | OtherRequestorJwt

text \<open>
  Modelled from the spec: the configuration store and what is looked up in it are
  outside the source files. \<open>AttributeList\<close> resolves a credential request to the
  identifier of its credential type and its attribute values as localized strings, or
  fails (\<open>None\<close>); \<open>MetadataCredentialType\<close> decodes the metadata attribute of a
  disclosure proof (the entry at index 1 of its disclosed attributes, \<open>None\<close> when
  the map has none) to the identifier of the credential type.
\<close>

record ConfigurationStore =
  AttributeList :: "CredentialRequest \<Rightarrow> (CredentialTypeIdentifier \<times> TranslatedString list) option"
  MetadataCredentialType :: "int option \<Rightarrow> CredentialTypeIdentifier"

record session =
  Action :: Action
  info :: "SessionInfo option"
  jwt :: RequestorJwt
  credManager_ConfigurationStore :: ConfigurationStore

subsection \<open>createLogEntry\<close>

text \<open>The loop over the credential requests of an issuance session.\<close>

fun createLogEntry_received ::
  "ConfigurationStore \<Rightarrow> CredentialRequest list \<Rightarrow>
   (CredentialTypeIdentifier \<rightharpoonup> TranslatedString list) \<Rightarrow>
   (CredentialTypeIdentifier \<rightharpoonup> TranslatedString list)" where
  "createLogEntry_received store [] received = received"
| "createLogEntry_received store (req # reqs) received =
     (case AttributeList store req of
        None \<Rightarrow> createLogEntry_received store reqs received
      | Some (ident, strings) \<Rightarrow>
          createLogEntry_received store reqs (received(ident \<mapsto> strings)))"

text \<open>
  The inner loop ranges over the map of disclosed attributes and stores one value
  per key other than 1 into a fresh map; as the keys of a map are distinct, the map it
  builds is given key by key.
\<close>

definition translated :: "string \<Rightarrow> TranslatedString" where
  "translated val = [''en'' \<mapsto> val, ''nl'' \<mapsto> val]"

definition createLogEntry_attributes :: "ProofD \<Rightarrow> (int \<rightharpoonup> TranslatedString)" where
  "createLogEntry_attributes proofd =
     (\<lambda>i. if i = 1 then None
          else (case ADisclosed proofd i of
                  None \<Rightarrow> None
                | Some attr \<Rightarrow> Some (translated (Bytes attr))))"

fun createLogEntry_disclosed ::
  "ConfigurationStore \<Rightarrow> Proof list \<Rightarrow>
   (CredentialTypeIdentifier \<rightharpoonup> (int \<rightharpoonup> TranslatedString)) \<Rightarrow>
   (CredentialTypeIdentifier \<rightharpoonup> (int \<rightharpoonup> TranslatedString))" where
  "createLogEntry_disclosed store [] disclosed = disclosed"
| "createLogEntry_disclosed store (ProofD_ptr proofd # prooflist) disclosed =
     (let ident = MetadataCredentialType store (ADisclosed proofd 1) in
      createLogEntry_disclosed store prooflist
        (disclosed(ident \<mapsto> createLogEntry_attributes proofd)))"
| "createLogEntry_disclosed store (ProofOther # prooflist) disclosed =
     createLogEntry_disclosed store prooflist disclosed"

definition createLogEntry_finish :: "session \<Rightarrow> LogEntry \<Rightarrow> Proof list \<Rightarrow> error + LogEntry" where
  "createLogEntry_finish s entry prooflist =
     Inr (entry\<lparr>Disclosed :=
       createLogEntry_disclosed (credManager_ConfigurationStore s) prooflist (Disclosed entry)\<rparr>)"

definition createLogEntry_ProofList :: "session \<Rightarrow> LogEntry \<Rightarrow> Response \<Rightarrow> error + LogEntry" where
  "createLogEntry_ProofList s entry resp =
     (case resp of
        ProofList prooflist \<Rightarrow> createLogEntry_finish s entry prooflist
      | _ \<Rightarrow> Inl (Error ''Response was not a ProofList''))"

definition createLogEntry :: "session \<Rightarrow> Timestamp \<Rightarrow> Response \<Rightarrow> error + LogEntry" where
  "createLogEntry s now resp =
     (let entry = \<lparr>Type = Action s, Time = now, SessionInfo = info s,
                   Disclosed = Map.empty, Received = Map.empty, Removed = Map.empty,
                   SignedMessage = [], SignedMessageType = [],
                   response = resp, rawResponse = []\<rparr>
      in
      if Type entry = ActionSigning then
        (case jwt s of
           SignatureRequestorJwt request \<Rightarrow>
             createLogEntry_ProofList s
               (entry\<lparr>SignedMessage := Message request,
                      SignedMessageType := MessageType request\<rparr>) resp
         | _ \<Rightarrow> Inl Panic)
      else if Type entry = ActionDisclosing then
        createLogEntry_ProofList s entry resp
      else if Type entry = ActionIssuing then
        (case jwt s of
           IdentityProviderJwt request \<Rightarrow>
             (let entry' = entry\<lparr>Received :=
                    createLogEntry_received (credManager_ConfigurationStore s)
                      (Credentials request) (Received entry)\<rparr>
              in case resp of
                   IssueCommitmentMessage_ptr msg \<Rightarrow> createLogEntry_finish s entry' (Proofs msg)
                 | _ \<Rightarrow> Inl (Error ''Response was not a *IssueCommitmentMessage''))
         | _ \<Rightarrow> Inl Panic)
      else Inl (Error ''Invalid log type''))"

subsection \<open>The codec of log entries\<close>

text \<open>
  Modelled from the spec: the JSON encodings of the proof structures and of the
  envelope are produced by the standard library from type declarations outside the
  source files, so the encoders and decoders are parameters. \<open>checkValid\<close> is the
  syntax check that the standard decoder runs on its input before anything else.
\<close>

record Json =
  Marshal_Response :: "Response \<Rightarrow> error + string"
  Unmarshal_IssueCommitmentMessage :: "string \<Rightarrow> error + IssueCommitmentMessage"
  Marshal_jsonLogEntry :: "jsonLogEntry \<Rightarrow> error + string"
  Unmarshal_jsonLogEntry :: "string \<Rightarrow> error + jsonLogEntry"
  checkValid :: "string \<Rightarrow> bool"

text \<open>
  \<open>json.Unmarshal data v\<close> as \<open>GetResponse\<close> calls it: it returns the error, if
  any, and the target as the call leaves it. The standard decoder first checks the
  syntax of the data, and then refuses every target that is not a non-nil pointer with
  an \<open>InvalidUnmarshalError\<close>. \<open>GetResponse\<close> passes one of two targets: the
  slice of disclosure proofs, which is not a pointer, and the pointer to an
  issuance-commitment message; nil and a proof list are no pointers either.
\<close>

definition Unmarshal :: "Json \<Rightarrow> string \<Rightarrow> Response \<Rightarrow> error option \<times> Response" where
  "Unmarshal js data v =
     (if \<not> checkValid js data then (Some SyntaxError, v)
      else (case v of
              IssueCommitmentMessage_ptr _ \<Rightarrow>
                (case Unmarshal_IssueCommitmentMessage js data of
                   Inl err \<Rightarrow> (Some err, v)
                 | Inr msg \<Rightarrow> (None, IssueCommitmentMessage_ptr msg))
            | _ \<Rightarrow> (Some InvalidUnmarshalError, v)))"

definition GetResponse_decode :: "Json \<Rightarrow> LogEntry \<Rightarrow> (error + Response) \<times> LogEntry" where
  "GetResponse_decode js entry =
     (case Unmarshal js (rawResponse entry) (response entry) of
        (Some err, v) \<Rightarrow> (Inl err, entry\<lparr>response := v\<rparr>)
      | (None, v) \<Rightarrow> (Inr v, entry\<lparr>response := v\<rparr>))"

definition GetResponse :: "Json \<Rightarrow> LogEntry \<Rightarrow> (error + Response) \<times> LogEntry" where
  "GetResponse js entry =
     (if response entry = NilValue then
        (if Type entry = actionRemoval then (Inr NilValue, entry)
         else if Type entry = ActionSigning then
           GetResponse_decode js (entry\<lparr>response := ProofDSlice []\<rparr>)
         else if Type entry = ActionDisclosing then
           GetResponse_decode js (entry\<lparr>response := ProofDSlice []\<rparr>)
         else if Type entry = ActionIssuing then
           GetResponse_decode js
             (entry\<lparr>response := IssueCommitmentMessage_ptr \<lparr>Proofs = []\<rparr>\<rparr>)
         else (Inl (Error ''Invalid log type''), entry))
      else (Inr (response entry), entry))"

fun UnmarshalJSON_keys :: "(string \<times> int) list \<Rightarrow> (IssuerIdentifier \<times> int) list \<Rightarrow> (IssuerIdentifier \<times> int) list" where
  "UnmarshalJSON_keys [] keys = keys"
| "UnmarshalJSON_keys ((iss, count) # rest) keys =
     UnmarshalJSON_keys rest (AList.update (NewIssuerIdentifier iss) count keys)"

definition UnmarshalJSON :: "Json \<Rightarrow> LogEntry \<Rightarrow> string \<Rightarrow> error option \<times> LogEntry" where
  "UnmarshalJSON js entry bytes =
     (case Unmarshal_jsonLogEntry js bytes of
        Inl err \<Rightarrow> (Some err, entry)
      | Inr temp \<Rightarrow>
         (case jsonLogEntry.SessionInfo temp of
            None \<Rightarrow> (Some Panic, entry)
          | Some si \<Rightarrow>
             (None,
              \<lparr>Type = jsonLogEntry.Type temp,
               Time = jsonLogEntry.Time temp,
               SessionInfo = Some
                 \<lparr>Jwt = logSessionInfo.Jwt si,
                  Nonce = logSessionInfo.Nonce si,
                  Context = logSessionInfo.Context si,
                  Keys = UnmarshalJSON_keys (logSessionInfo.Keys si) []\<rparr>,
               Disclosed = jsonLogEntry.Disclosed temp,
               Received = jsonLogEntry.Received temp,
               Removed = jsonLogEntry.Removed temp,
               SignedMessage = jsonLogEntry.SignedMessage temp,
               SignedMessageType = jsonLogEntry.SignedMessageType temp,
               response = NilValue,
               rawResponse = Response temp\<rparr>)))"

fun MarshalJSON_keys :: "(IssuerIdentifier \<times> int) list \<Rightarrow> (string \<times> int) list \<Rightarrow> (string \<times> int) list" where
  "MarshalJSON_keys [] keys = keys"
| "MarshalJSON_keys ((iss, count) # rest) keys =
     MarshalJSON_keys rest (AList.update (String iss) count keys)"

definition MarshalJSON_rawResponse :: "Json \<Rightarrow> LogEntry \<Rightarrow> error + LogEntry" where
  "MarshalJSON_rawResponse js entry =
     (if length (rawResponse entry) = 0 \<and> response entry \<noteq> NilValue then
        (case Marshal_Response js (response entry) of
           Inr bytes \<Rightarrow> Inr (entry\<lparr>rawResponse := bytes\<rparr>)
         | Inl err \<Rightarrow> Inl err)
      else Inr entry)"

definition MarshalJSON_envelope :: "LogEntry \<Rightarrow> jsonLogEntry" where
  "MarshalJSON_envelope entry =
     (let si = (case SessionInfo entry of
                  None \<Rightarrow> None
                | Some sessioninfo \<Rightarrow> Some
                    \<lparr>logSessionInfo.Jwt = Jwt sessioninfo,
                     logSessionInfo.Nonce = Nonce sessioninfo,
                     logSessionInfo.Context = Context sessioninfo,
                     logSessionInfo.Keys = MarshalJSON_keys (Keys sessioninfo) []\<rparr>)
      in \<lparr>jsonLogEntry.Type = Type entry,
          jsonLogEntry.Time = Time entry,
          jsonLogEntry.SessionInfo = si,
          jsonLogEntry.Disclosed = Disclosed entry,
          jsonLogEntry.Received = Received entry,
          jsonLogEntry.Removed = Removed entry,
          jsonLogEntry.SignedMessage = SignedMessage entry,
          jsonLogEntry.SignedMessageType = SignedMessageType entry,
          Response = rawResponse entry\<rparr>)"

definition MarshalJSON :: "Json \<Rightarrow> LogEntry \<Rightarrow> (error + string) \<times> LogEntry" where
  "MarshalJSON js entry =
     (case MarshalJSON_rawResponse js entry of
        Inl err \<Rightarrow> (Inl err, entry)
      | Inr entry' \<Rightarrow> (Marshal_jsonLogEntry js (MarshalJSON_envelope entry'), entry'))"

section \<open>Scenarios\<close>

text \<open>
  The configuration of the scenarios of the specification: requestor \<open>acme\<close> may
  disclose \<open>irma-demo.RU.studentCard.*\<close> and issue \<open>irma-demo.*\<close>, and there
  are no global permissions.
\<close>

definition acme_conf :: Configuration where
  "acme_conf =
     \<lparr>Logger = [], DisableRequestorAuthentication = False, Port = 8088,
      RequestorsString = [],
      Requestors = [(''acme'',
        \<lparr>Disclosing = [''irma-demo.RU.studentCard.*''], Signing = [], Issuing = [''irma-demo.*''],
         AuthenticationMethod = AuthenticationMethodToken, AuthenticationKey = ''k''\<rparr>)],
      GlobalPermissionsString = [],
      GlobalPermissions = \<lparr>Disclosing = [], Signing = [], Issuing = []\<rparr>,
      JwtIssuer = [], JwtPrivateKey = [], jwtPrivateKey = None\<rparr>"

text \<open>
  An environment for the scenarios: every path exists and holds an empty file, the
  PEM parser accepts what it is given, and the strategies accept every requestor.
\<close>

definition offline_environment :: environment where
  "offline_environment =
     \<lparr>AssertPathExists = (\<lambda>path. None),
      ReadFile = (\<lambda>path. Inr []),
      ParseRSAPrivateKeyFromPEM = (\<lambda>keybytes. Inr keybytes),
      Authenticator_Initialize = (\<lambda>authenticator name requestor. (None, authenticator))\<rparr>"

text \<open>
  The shape of a response and the proof list it carries, and the credential requests
  of an issuance request that the configuration store resolves, in the order of the
  request.
\<close>

definition is_ProofList :: "Response \<Rightarrow> bool" where
  "is_ProofList resp = (case resp of ProofList _ \<Rightarrow> True | _ \<Rightarrow> False)"

definition is_IssueCommitmentMessage :: "Response \<Rightarrow> bool" where
  "is_IssueCommitmentMessage resp =
     (case resp of IssueCommitmentMessage_ptr _ \<Rightarrow> True | _ \<Rightarrow> False)"

definition response_proofs :: "Response \<Rightarrow> Proof list" where
  "response_proofs resp =
     (case resp of
        ProofList prooflist \<Rightarrow> prooflist
      | IssueCommitmentMessage_ptr msg \<Rightarrow> Proofs msg
      | _ \<Rightarrow> [])"

definition resolved_credentials ::
  "ConfigurationStore \<Rightarrow> CredentialRequest list \<Rightarrow>
   (CredentialTypeIdentifier \<times> TranslatedString list) list" where
  "resolved_credentials store reqs = List.map_filter (AttributeList store) reqs"

text \<open>
  A store that knows the student card (metadata value 42, two attributes) and no
  other credential type, and sessions of the three kinds over it.
\<close>

definition demo_store :: ConfigurationStore where
  "demo_store =
     \<lparr>AttributeList = (\<lambda>req.
        if CredentialTypeID req = ''irma-demo.RU.studentCard''
        then Some (''irma-demo.RU.studentCard'', [translated ''Radboud'', translated ''s1234567''])
        else None),
      MetadataCredentialType = (\<lambda>meta.
        if meta = Some 42 then ''irma-demo.RU.studentCard'' else ''irma-demo.MijnOverheid.root'')\<rparr>"

definition demo_info :: SessionInfo where
  "demo_info = \<lparr>Jwt = ''jwt'', Nonce = 1, Context = 2, Keys = [(''irma-demo.RU'', 3)]\<rparr>"

definition disclosing_session :: session where
  "disclosing_session =
     \<lparr>Action = ActionDisclosing, info = Some demo_info, jwt = OtherRequestorJwt,
      credManager_ConfigurationStore = demo_store\<rparr>"

definition signing_session :: session where
  "signing_session =
     \<lparr>Action = ActionSigning, info = Some demo_info,
      jwt = SignatureRequestorJwt \<lparr>Message = ''message'', MessageType = ''STRING''\<rparr>,
      credManager_ConfigurationStore = demo_store\<rparr>"

definition issuing_session :: session where
  "issuing_session =
     \<lparr>Action = ActionIssuing, info = Some demo_info,
      jwt = IdentityProviderJwt \<lparr>Credentials =
        [\<lparr>CredentialTypeID = ''test.test.mijnirma'', CredentialRequest.Attributes = []\<rparr>,
         \<lparr>CredentialTypeID = ''irma-demo.RU.studentCard'',
          CredentialRequest.Attributes = [(''university'', ''Radboud''), (''studentID'', ''s1234567'')]\<rparr>]\<rparr>,
      credManager_ConfigurationStore = demo_store\<rparr>"

text \<open>
  The disclosure proofs of a proof list, in its order, and the credential type that the
  metadata attribute of a disclosure proof decodes to.
\<close>

fun disclosure_proofs :: "Proof list \<Rightarrow> ProofD list" where
  "disclosure_proofs [] = []"
| "disclosure_proofs (ProofD_ptr proofd # prooflist) = proofd # disclosure_proofs prooflist"
| "disclosure_proofs (ProofOther # prooflist) = disclosure_proofs prooflist"

definition proof_credential :: "ConfigurationStore \<Rightarrow> ProofD \<Rightarrow> CredentialTypeIdentifier" where
  "proof_credential store proofd = MetadataCredentialType store (ADisclosed proofd 1)"

text \<open>
  Two disclosure proofs of student cards: the first discloses the attribute with the
  bytes \<open>s1234567\<close> at index 2, the second only an attribute at index 3.
\<close>

definition studentCard_proof :: ProofD where
  "studentCard_proof = \<lparr>ADisclosed = [1 \<mapsto> 42, 2 \<mapsto> 8300470783721158199]\<rparr>"

definition studentCard_proof' :: ProofD where
  "studentCard_proof' = \<lparr>ADisclosed = [1 \<mapsto> 42, 3 \<mapsto> 97]\<rparr>"

text \<open>
  The log entry of a disclosing session with one disclosure proof, and a codec for the
  scenarios that knows this one entry: it encodes every response as \<open>[{}]\<close> and every
  envelope as \<open>{}\<close>, decodes every envelope to that of the entry, and takes every
  non-empty text for valid JSON.
\<close>

definition logged_disclosure :: LogEntry where
  "logged_disclosure =
     projr (createLogEntry disclosing_session 0 (ProofList [ProofD_ptr studentCard_proof]))"

definition stub_json :: Json where
  "stub_json =
     \<lparr>Marshal_Response = (\<lambda>resp. Inr ''[{}]''),
      Unmarshal_IssueCommitmentMessage = (\<lambda>data. Inr \<lparr>Proofs = []\<rparr>),
      Marshal_jsonLogEntry = (\<lambda>temp. Inr ''{}''),
      Unmarshal_jsonLogEntry =
        (\<lambda>data. Inr (MarshalJSON_envelope (logged_disclosure\<lparr>rawResponse := ''[{}]''\<rparr>))),
      checkValid = (\<lambda>data. data \<noteq> [])\<rparr>"

section \<open>Properties of the permission matcher\<close>

lemma contains_set: "contains strings query = (query \<in> set strings)"
  by (induction strings) auto

lemma CanIssue_loop_first_denied:
  "CanIssue_loop permissions creds =
     first_denied (issuance_match permissions) (map CredentialTypeID creds)"
  by (induction creds)
     (simp_all add: first_denied_def issuance_match_def contains_set Let_def)

lemma CanVerifyOrSign_attrs_dropWhile:
  "CanVerifyOrSign_attrs permissions attrs =
     (case dropWhile (attribute_match permissions) attrs of
        [] \<Rightarrow> None
      | attr # _ \<Rightarrow> Some (String attr))"
  by (induction attrs) (simp_all add: attribute_match_def contains_set)

lemma dropWhile_Nil_append:
  "dropWhile P xs = [] \<Longrightarrow> dropWhile P (xs @ ys) = dropWhile P ys"
  by (induction xs) (auto split: if_splits)

lemma dropWhile_Cons_append:
  "dropWhile P xs = x # rest \<Longrightarrow> dropWhile P (xs @ ys) = x # rest @ ys"
  by (induction xs) (auto split: if_splits)

lemma CanVerifyOrSign_loop_first_denied:
  "CanVerifyOrSign_loop permissions disjunctions =
     first_denied (attribute_match permissions) (listed_attributes disjunctions)"
proof (induction disjunctions)
  case Nil
  show ?case by (simp add: first_denied_def listed_attributes_def)
next
  case (Cons d ds)
  show ?case
  proof (cases "dropWhile (attribute_match permissions) (Attributes d)")
    case Nil
    have "CanVerifyOrSign_attrs permissions (Attributes d) = None"
      unfolding CanVerifyOrSign_attrs_dropWhile Nil by simp
    moreover have "dropWhile (attribute_match permissions) (listed_attributes (d # ds)) =
        dropWhile (attribute_match permissions) (listed_attributes ds)"
      using dropWhile_Nil_append [OF Nil] by (simp add: listed_attributes_def)
    ultimately show ?thesis
      using Cons.IH by (simp add: first_denied_def)
  next
    case (Cons a rest)
    have "CanVerifyOrSign_attrs permissions (Attributes d) = Some (String a)"
      unfolding CanVerifyOrSign_attrs_dropWhile Cons by simp
    moreover have "dropWhile (attribute_match permissions) (listed_attributes (d # ds)) =
        a # rest @ listed_attributes ds"
      using dropWhile_Cons_append [OF Cons] by (simp add: listed_attributes_def)
    ultimately show ?thesis
      by (simp add: first_denied_def)
  qed
qed

text \<open>
  C1. \<open>CanIssue\<close> combines the requestor's issuing list with the global issuing
  list; an empty combined list denies with an empty string whatever is requested;
  otherwise the requested credential types are matched in order against the universal
  wildcard, the scheme root wildcard, the issuer wildcard and the exact identifier, the
  first one that does not match is returned with \<open>False\<close>, and \<open>(True, '''')\<close> is
  returned when all of them match.
\<close>

theorem CanIssue_decision:
  "CanIssue conf requestor creds =
     (if issuing_permissions conf requestor = [] then (False, [])
      else first_denied (issuance_match (issuing_permissions conf requestor))
             (map CredentialTypeID creds))"
  by (simp add: CanIssue_def Let_def issuing_permissions_def CanIssue_loop_first_denied)

text \<open>
  The scenario of the specification: \<open>acme\<close>, who may issue under
  \<open>irma-demo.*\<close>, asks for three credential types; the first is permitted and the
  second is the one reported, the third is not looked at. A requestor without any
  permission is denied with an empty string, also for an empty request; and a global
  wildcard below the credential type, \<open>irma-demo.RU.studentCard.*\<close>, does not
  permit issuing \<open>irma-demo.RU.studentCard\<close>.
\<close>

theorem CanIssue_decision_witness:
  "CanIssue acme_conf ''acme''
     [\<lparr>CredentialTypeID = ''irma-demo.RU.studentCard'', CredentialRequest.Attributes = []\<rparr>,
      \<lparr>CredentialTypeID = ''test.test.mijnirma'', CredentialRequest.Attributes = []\<rparr>,
      \<lparr>CredentialTypeID = ''other.x.y'', CredentialRequest.Attributes = []\<rparr>]
   = (False, ''test.test.mijnirma'') \<and>
   CanIssue acme_conf ''acme''
     [\<lparr>CredentialTypeID = ''irma-demo.RU.studentCard'', CredentialRequest.Attributes = []\<rparr>]
   = (True, []) \<and>
   CanIssue acme_conf ''nobody'' [] = (False, []) \<and>
   CanIssue
     (acme_conf\<lparr>GlobalPermissions :=
        \<lparr>Disclosing = [], Signing = [], Issuing = [''irma-demo.RU.studentCard.*'']\<rparr>\<rparr>)
     ''nobody''
     [\<lparr>CredentialTypeID = ''irma-demo.RU.studentCard'', CredentialRequest.Attributes = []\<rparr>]
   = (False, ''irma-demo.RU.studentCard'')"
  using CanIssue_decision [of acme_conf "''acme''"
     "[\<lparr>CredentialTypeID = ''irma-demo.RU.studentCard'', CredentialRequest.Attributes = []\<rparr>,
      \<lparr>CredentialTypeID = ''test.test.mijnirma'', CredentialRequest.Attributes = []\<rparr>,
      \<lparr>CredentialTypeID = ''other.x.y'', CredentialRequest.Attributes = []\<rparr>]"]
    CanIssue_decision [of acme_conf "''acme''"
     "[\<lparr>CredentialTypeID = ''irma-demo.RU.studentCard'', CredentialRequest.Attributes = []\<rparr>]"]
    CanIssue_decision [of acme_conf "''nobody''" "[]"]
    CanIssue_decision [of
     "acme_conf\<lparr>GlobalPermissions :=
        \<lparr>Disclosing = [], Signing = [], Issuing = [''irma-demo.RU.studentCard.*'']\<rparr>\<rparr>"
     "''nobody''"
     "[\<lparr>CredentialTypeID = ''irma-demo.RU.studentCard'', CredentialRequest.Attributes = []\<rparr>]"]
  by (simp add: acme_conf_def issuing_permissions_def Requestors_index_def first_denied_def
      issuance_match_def Root_def Parent_def String_def IssuerIdentifier_def
      NewIssuerIdentifier_def zero_Requestor_def)

lemma CanVerifyOrSign_unfold:
  "CanVerifyOrSign conf requestor action disjunctions =
     (if action = ActionDisclosing \<or> action = ActionIssuing then
        (if disclosing_permissions conf requestor = [] then (False, [])
         else CanVerifyOrSign_loop (disclosing_permissions conf requestor) disjunctions)
      else if action = ActionSigning then
        (if signing_permissions conf requestor = [] then (False, [])
         else CanVerifyOrSign_loop (signing_permissions conf requestor) disjunctions)
      else (False, []))"
  by (simp add: CanVerifyOrSign_def disclosing_permissions_def signing_permissions_def)

lemma first_denied_second_disjunction:
  assumes "\<forall>a\<in>set (Attributes d1). attribute_match permissions a"
    and "dropWhile (attribute_match permissions) (Attributes d2) = b # rest"
  shows "first_denied (attribute_match permissions) (listed_attributes (d1 # d2 # ds)) =
     (False, String b)"
proof -
  have "dropWhile (attribute_match permissions) (Attributes d1) = []"
    using assms(1) by simp
  then have "dropWhile (attribute_match permissions) (listed_attributes (d1 # d2 # ds)) =
      dropWhile (attribute_match permissions) (Attributes d2 @ listed_attributes ds)"
    using dropWhile_Nil_append [of "attribute_match permissions" "Attributes d1"]
    by (simp add: listed_attributes_def)
  also have "\<dots> = b # rest @ listed_attributes ds"
    using dropWhile_Cons_append [OF assms(2)] by simp
  finally show ?thesis
    by (simp add: first_denied_def)
qed

text \<open>
  C2. \<open>CanVerifyOrSign\<close> takes the disclosing lists of the requestor and of the
  global permissions for the disclosing and for the issuing action and the signing
  lists for the signing action; an empty combined list denies with an empty string;
  otherwise the attributes of all disjunctions are matched in order against the
  universal wildcard, the root, issuer and credential type wildcards and the exact
  attribute, the first one that does not match is returned with \<open>False\<close>, and
  \<open>(True, '''')\<close> is returned when all of them match. In particular, when every
  attribute of the first disjunction matches and \<open>b\<close> is the first attribute of the
  second disjunction that does not, the result is \<open>(False, b)\<close>.
\<close>

theorem CanVerifyOrSign_decision:
  "(let permissions =
      (if action = ActionDisclosing \<or> action = ActionIssuing
       then disclosing_permissions conf requestor
       else signing_permissions conf requestor)
    in
    (action = ActionDisclosing \<or> action = ActionIssuing \<or> action = ActionSigning \<longrightarrow>
       CanVerifyOrSign conf requestor action disjunctions =
         (if permissions = [] then (False, [])
          else first_denied (attribute_match permissions) (listed_attributes disjunctions))) \<and>
    ((action = ActionDisclosing \<or> action = ActionIssuing \<or> action = ActionSigning) \<and>
     permissions \<noteq> [] \<and>
     list_all (attribute_match permissions) (Attributes d1) \<and>
     dropWhile (attribute_match permissions) (Attributes d2) = b # rest \<longrightarrow>
       CanVerifyOrSign conf requestor action (d1 # d2 # ds) = (False, String b)))"
  unfolding Let_def CanVerifyOrSign_unfold CanVerifyOrSign_loop_first_denied
  using first_denied_second_disjunction [of d1 _ d2 b rest ds]
  by (auto simp: ActionDisclosing_def ActionIssuing_def ActionSigning_def list_all_iff)

text \<open>
  The scenario of the specification: a request of \<open>acme\<close> with a permitted first
  disjunction and a second one that asks for \<open>irma-demo.MijnOverheid.root.BSN\<close> is
  denied with that attribute, not with the later \<open>test.test.mijnirma.email\<close>.
\<close>

theorem CanVerifyOrSign_decision_witness:
  "disclosing_permissions acme_conf ''acme'' = [''irma-demo.RU.studentCard.*''] \<and>
   list_all (attribute_match [''irma-demo.RU.studentCard.*''])
     [''irma-demo.RU.studentCard.studentID''] \<and>
   dropWhile (attribute_match [''irma-demo.RU.studentCard.*''])
     [''irma-demo.RU.studentCard.level'', ''irma-demo.MijnOverheid.root.BSN'',
      ''test.test.mijnirma.email''] =
     [''irma-demo.MijnOverheid.root.BSN'', ''test.test.mijnirma.email''] \<and>
   CanVerifyOrSign acme_conf ''acme'' ActionDisclosing
     [\<lparr>Label = ''foo'', Attributes = [''irma-demo.RU.studentCard.studentID'']\<rparr>,
      \<lparr>Label = ''bar'', Attributes = [''irma-demo.RU.studentCard.level'',
         ''irma-demo.MijnOverheid.root.BSN'', ''test.test.mijnirma.email'']\<rparr>]
   = (False, ''irma-demo.MijnOverheid.root.BSN'')"
proof -
  have perms: "disclosing_permissions acme_conf ''acme'' = [''irma-demo.RU.studentCard.*'']"
    by (simp add: acme_conf_def disclosing_permissions_def Requestors_index_def)
  have first: "list_all (attribute_match [''irma-demo.RU.studentCard.*''])
      [''irma-demo.RU.studentCard.studentID'']"
    by (simp add: attribute_match_def Root_def Parent_def String_def IssuerIdentifier_def
        CredentialTypeIdentifier_def NewIssuerIdentifier_def)
  have second: "dropWhile (attribute_match [''irma-demo.RU.studentCard.*''])
      [''irma-demo.RU.studentCard.level'', ''irma-demo.MijnOverheid.root.BSN'',
       ''test.test.mijnirma.email''] =
      [''irma-demo.MijnOverheid.root.BSN'', ''test.test.mijnirma.email'']"
    by (simp add: attribute_match_def Root_def Parent_def String_def IssuerIdentifier_def
        CredentialTypeIdentifier_def NewIssuerIdentifier_def)
  show ?thesis
    using perms first second
      CanVerifyOrSign_decision [of ActionDisclosing acme_conf "''acme''" "[]"
        "\<lparr>Label = ''foo'', Attributes = [''irma-demo.RU.studentCard.studentID'']\<rparr>"
        "\<lparr>Label = ''bar'', Attributes = [''irma-demo.RU.studentCard.level'',
           ''irma-demo.MijnOverheid.root.BSN'', ''test.test.mijnirma.email'']\<rparr>"
        "''irma-demo.MijnOverheid.root.BSN''" "[''test.test.mijnirma.email'']" "[]"]
    by (simp add: Let_def String_def)
qed

text \<open>
  C9. For an action other than disclosing, issuing and signing no permission list is
  selected, and \<open>CanVerifyOrSign\<close> denies with an empty string whatever the
  configuration, the requestor and the disjunctions are.
\<close>

theorem CanVerifyOrSign_unknown_action:
  assumes "action \<noteq> ActionDisclosing" and "action \<noteq> ActionIssuing"
    and "action \<noteq> ActionSigning"
  shows "CanVerifyOrSign conf requestor action disjunctions = (False, [])"
  using assms by (simp add: CanVerifyOrSign_def)

theorem CanVerifyOrSign_unknown_action_witness:
  "actionRemoval \<noteq> ActionDisclosing \<and> actionRemoval \<noteq> ActionIssuing \<and>
   actionRemoval \<noteq> ActionSigning \<and>
   CanVerifyOrSign
     (acme_conf\<lparr>GlobalPermissions := \<lparr>Disclosing = [''*''], Signing = [''*''], Issuing = [''*'']\<rparr>\<rparr>)
     ''acme'' actionRemoval
     [\<lparr>Label = ''foo'', Attributes = [''irma-demo.RU.studentCard.studentID'']\<rparr>] = (False, [])"
proof -
  have 1: "actionRemoval \<noteq> ActionDisclosing"
    and 2: "actionRemoval \<noteq> ActionIssuing"
    and 3: "actionRemoval \<noteq> ActionSigning"
    by (simp_all add: actionRemoval_def ActionDisclosing_def ActionIssuing_def ActionSigning_def)
  show ?thesis
    using 1 2 3 CanVerifyOrSign_unknown_action [OF 1 2 3] by simp
qed

section \<open>Properties of the initialization\<close>

lemma ParseRSAPrivateKey_frame:
  "ParseRSAPrivateKey env conf keybytes = (err, conf') \<Longrightarrow>
     GlobalPermissions conf' = GlobalPermissions conf \<and>
     DisableRequestorAuthentication conf' = DisableRequestorAuthentication conf"
  by (auto simp: ParseRSAPrivateKey_def split: sum.splits)

lemma readPrivateKey_frame:
  "readPrivateKey env conf = (err, conf') \<Longrightarrow>
     GlobalPermissions conf' = GlobalPermissions conf \<and>
     DisableRequestorAuthentication conf' = DisableRequestorAuthentication conf"
  by (auto simp: readPrivateKey_def split: if_splits option.splits sum.splits
      dest: ParseRSAPrivateKey_frame)

lemma defaults_of_empty:
  assumes "Disclosing (GlobalPermissions conf) = []"
    and "Signing (GlobalPermissions conf) = []"
    and "Issuing (GlobalPermissions conf) = []"
  shows "GlobalPermissions (default_Issuing (default_Signing (default_Disclosing
           (Logger_write level msg conf)))) =
         \<lparr>Disclosing = [''*''], Signing = [''*''], Issuing = [''*'']\<rparr>"
  using assms
  by (simp add: default_Issuing_def default_Signing_def default_Disclosing_def Logger_write_def)

text \<open>
  C4. With requestor authentication disabled, a successful \<open>initialize\<close> leaves a
  registry of exactly one entry, the nil authenticator under the method tag none; and
  when each of the three global permission lists was empty before, each of them is
  \<open>[''*'']\<close> afterwards.
\<close>

theorem initialize_disabled_defaults:
  assumes "DisableRequestorAuthentication conf"
    and "initialize env (conf, authenticators) = (None, conf', authenticators')"
  shows "authenticators' = [(AuthenticationMethodNone, NilAuthenticator)] \<and>
     (Disclosing (GlobalPermissions conf) = [] \<and>
      Signing (GlobalPermissions conf) = [] \<and>
      Issuing (GlobalPermissions conf) = [] \<longrightarrow>
        Disclosing (GlobalPermissions conf') = [''*''] \<and>
        Signing (GlobalPermissions conf') = [''*''] \<and>
        Issuing (GlobalPermissions conf') = [''*''])"
proof -
  obtain err conf1 where rd: "readPrivateKey env conf = (err, conf1)"
    by (cases "readPrivateKey env conf")
  from readPrivateKey_frame [OF rd] assms(1)
  have dis: "DisableRequestorAuthentication conf1"
    and same: "GlobalPermissions conf1 = GlobalPermissions conf"
    by simp_all
  from assms(2) rd have err: "err = None"
    by (cases err) (simp_all add: initialize_def)
  from assms(2) rd err dis
  have conf': "conf' = default_Issuing (default_Signing (default_Disclosing
        (Logger_write Warn ''Authentication of incoming session requests disabled'' conf1)))"
    and auths: "authenticators' = [(AuthenticationMethodNone, NilAuthenticator)]"
    by (simp_all add: initialize_def)
  have "Disclosing (GlobalPermissions conf') = [''*''] \<and>
        Signing (GlobalPermissions conf') = [''*''] \<and>
        Issuing (GlobalPermissions conf') = [''*'']"
    if empty: "Disclosing (GlobalPermissions conf) = []" "Signing (GlobalPermissions conf) = []"
      "Issuing (GlobalPermissions conf) = []"
    unfolding conf' using defaults_of_empty [of conf1] empty same by simp
  with auths show ?thesis by blast
qed

theorem initialize_disabled_defaults_witness:
  "DisableRequestorAuthentication (acme_conf\<lparr>DisableRequestorAuthentication := True\<rparr>) \<and>
   Disclosing (GlobalPermissions (acme_conf\<lparr>DisableRequestorAuthentication := True\<rparr>)) = [] \<and>
   Signing (GlobalPermissions (acme_conf\<lparr>DisableRequestorAuthentication := True\<rparr>)) = [] \<and>
   Issuing (GlobalPermissions (acme_conf\<lparr>DisableRequestorAuthentication := True\<rparr>)) = [] \<and>
   fst (initialize offline_environment
          (acme_conf\<lparr>DisableRequestorAuthentication := True\<rparr>, [])) = None \<and>
   GlobalPermissions (fst (snd (initialize offline_environment
          (acme_conf\<lparr>DisableRequestorAuthentication := True\<rparr>, [])))) =
     \<lparr>Disclosing = [''*''], Signing = [''*''], Issuing = [''*'']\<rparr> \<and>
   snd (snd (initialize offline_environment
          (acme_conf\<lparr>DisableRequestorAuthentication := True\<rparr>, []))) =
     [(AuthenticationMethodNone, NilAuthenticator)]"
proof -
  let ?c = "acme_conf\<lparr>DisableRequestorAuthentication := True\<rparr>"
  obtain conf' authenticators' where
    run: "initialize offline_environment (?c, []) = (None, conf', authenticators')"
    by (simp add: initialize_def readPrivateKey_def acme_conf_def)
  have 1: "DisableRequestorAuthentication ?c"
    and 2: "Disclosing (GlobalPermissions ?c) = []"
    and 3: "Signing (GlobalPermissions ?c) = []"
    and 4: "Issuing (GlobalPermissions ?c) = []"
    by (simp_all add: acme_conf_def)
  from initialize_disabled_defaults [OF 1 run] 1 2 3 4 run
  show ?thesis by (cases "GlobalPermissions conf'") simp
qed

text \<open>
  C5. With requestor authentication enabled, a requestor whose authentication method
  has no strategy in the registry makes \<open>initialize\<close> fail; the format of the error
  has a \<open>%s\<close> for the requestor but the call passes no operand, so the message is
  the same for every requestor name and names none.
\<close>

theorem initialize_unsupported_method_message:
  "fst (initialize env
     (acme_conf\<lparr>Requestors :=
        [(name, zero_Requestor\<lparr>AuthenticationMethod := AuthenticationMethodNone\<rparr>)]\<rparr>,
      authenticators)) =
   Some (Error ''Requestor %!s(MISSING) has unsupported authentication type'')"
  by (simp add: initialize_def readPrivateKey_def acme_conf_def Errorf_def)

section \<open>Properties of the log entry builder\<close>

lemma createLogEntry_received_map_of:
  "createLogEntry_received store reqs received =
     received ++ map_of (rev (resolved_credentials store reqs))"
proof (induction reqs arbitrary: received)
  case Nil
  show ?case by (simp add: resolved_credentials_def List.map_filter_simps)
next
  case (Cons req reqs)
  show ?case
  proof (cases "AttributeList store req")
    case None
    then show ?thesis
      using Cons.IH by (simp add: resolved_credentials_def List.map_filter_simps)
  next
    case (Some resolved)
    obtain ident strings where resolved: "resolved = (ident, strings)"
      by (cases resolved)
    have step: "createLogEntry_received store (req # reqs) received =
        createLogEntry_received store reqs (received(ident \<mapsto> strings))"
      using Some resolved by simp
    have rc: "resolved_credentials store (req # reqs) =
        (ident, strings) # resolved_credentials store reqs"
      using Some resolved by (simp add: resolved_credentials_def List.map_filter_simps)
    have "received(ident \<mapsto> strings) ++ map_of (rev (resolved_credentials store reqs)) =
        received ++ map_of (rev (resolved_credentials store reqs) @ [(ident, strings)])"
      by (simp add: map_of_append map_add_assoc [symmetric] map_add_upd)
    then show ?thesis
      unfolding step rc Cons.IH by simp
  qed
qed

lemma createLogEntry_ProofList_cases:
  "createLogEntry_ProofList s entry resp =
     (if is_ProofList resp then createLogEntry_finish s entry (response_proofs resp)
      else Inl (Error ''Response was not a ProofList''))"
  by (cases resp) (simp_all add: createLogEntry_ProofList_def is_ProofList_def response_proofs_def)

lemma Action_distinct:
  "ActionSigning \<noteq> ActionDisclosing" "ActionSigning \<noteq> ActionIssuing"
  "ActionDisclosing \<noteq> ActionIssuing" "ActionDisclosing \<noteq> ActionSigning"
  "ActionIssuing \<noteq> ActionSigning" "ActionIssuing \<noteq> ActionDisclosing"
  by (simp_all add: ActionSigning_def ActionDisclosing_def ActionIssuing_def)

lemma createLogEntry_disclosing:
  assumes "Action s = ActionDisclosing"
  shows "createLogEntry s now resp =
     (if is_ProofList resp then
        Inr \<lparr>Type = ActionDisclosing, Time = now, SessionInfo = info s,
             Disclosed = createLogEntry_disclosed (credManager_ConfigurationStore s)
               (response_proofs resp) Map.empty,
             Received = Map.empty, Removed = Map.empty,
             SignedMessage = [], SignedMessageType = [],
             response = resp, rawResponse = []\<rparr>
      else Inl (Error ''Response was not a ProofList''))"
  using assms
  by (simp add: createLogEntry_def Let_def Action_distinct createLogEntry_ProofList_cases
      createLogEntry_finish_def)

lemma createLogEntry_signing:
  assumes "Action s = ActionSigning" and "jwt s = SignatureRequestorJwt request"
  shows "createLogEntry s now resp =
     (if is_ProofList resp then
        Inr \<lparr>Type = ActionSigning, Time = now, SessionInfo = info s,
             Disclosed = createLogEntry_disclosed (credManager_ConfigurationStore s)
               (response_proofs resp) Map.empty,
             Received = Map.empty, Removed = Map.empty,
             SignedMessage = Message request, SignedMessageType = MessageType request,
             response = resp, rawResponse = []\<rparr>
      else Inl (Error ''Response was not a ProofList''))"
  using assms
  by (simp add: createLogEntry_def Let_def Action_distinct createLogEntry_ProofList_cases
      createLogEntry_finish_def)

lemma createLogEntry_issuing:
  assumes "Action s = ActionIssuing" and "jwt s = IdentityProviderJwt request"
  shows "createLogEntry s now resp =
     (if is_IssueCommitmentMessage resp then
        Inr \<lparr>Type = ActionIssuing, Time = now, SessionInfo = info s,
             Disclosed = createLogEntry_disclosed (credManager_ConfigurationStore s)
               (response_proofs resp) Map.empty,
             Received = map_of (rev (resolved_credentials (credManager_ConfigurationStore s)
               (Credentials request))),
             Removed = Map.empty,
             SignedMessage = [], SignedMessageType = [],
             response = resp, rawResponse = []\<rparr>
      else Inl (Error ''Response was not a *IssueCommitmentMessage''))"
  using assms
  by (cases resp)
     (simp_all add: createLogEntry_def Let_def Action_distinct createLogEntry_finish_def
       is_IssueCommitmentMessage_def response_proofs_def createLogEntry_received_map_of)

lemma createLogEntry_other:
  assumes "Action s \<noteq> ActionSigning" and "Action s \<noteq> ActionDisclosing"
    and "Action s \<noteq> ActionIssuing"
  shows "createLogEntry s now resp = Inl (Error ''Invalid log type'')"
  using assms by (simp add: createLogEntry_def Let_def)

text \<open>
  C6. \<open>createLogEntry\<close> returns an error and no entry exactly when the response does
  not have the shape of the action or the action is unknown: for the disclosing action,
  and for the signing action once the signed message is taken from the signature
  request, it fails if and only if the response is not a proof list; for the issuing
  action (of an identity provider's request) if and only if the response is not an
  issuance-commitment message; for every other action with the error of an invalid log
  type. In an issuance session the credential requests that the store cannot resolve
  are left out of \<open>Received\<close>, which holds the resolved ones, and the entry is built
  all the same.
\<close>

theorem createLogEntry_failures:
  "(Action s = ActionDisclosing \<longrightarrow>
      (if is_ProofList resp then \<not> isl (createLogEntry s now resp)
       else createLogEntry s now resp = Inl (Error ''Response was not a ProofList''))) \<and>
   (Action s = ActionSigning \<and> jwt s = SignatureRequestorJwt signature \<longrightarrow>
      (if is_ProofList resp
       then \<not> isl (createLogEntry s now resp) \<and>
            SignedMessage (projr (createLogEntry s now resp)) = Message signature \<and>
            SignedMessageType (projr (createLogEntry s now resp)) = MessageType signature
       else createLogEntry s now resp = Inl (Error ''Response was not a ProofList''))) \<and>
   (Action s = ActionIssuing \<and> jwt s = IdentityProviderJwt issuance \<longrightarrow>
      (if is_IssueCommitmentMessage resp
       then \<not> isl (createLogEntry s now resp) \<and>
            Received (projr (createLogEntry s now resp)) =
              map_of (rev (resolved_credentials (credManager_ConfigurationStore s)
                (Credentials issuance)))
       else createLogEntry s now resp =
              Inl (Error ''Response was not a *IssueCommitmentMessage''))) \<and>
   (Action s \<noteq> ActionSigning \<and> Action s \<noteq> ActionDisclosing \<and> Action s \<noteq> ActionIssuing \<longrightarrow>
      createLogEntry s now resp = Inl (Error ''Invalid log type''))"
proof (intro conjI impI)
  assume "Action s = ActionDisclosing"
  then show "if is_ProofList resp then \<not> isl (createLogEntry s now resp)
       else createLogEntry s now resp = Inl (Error ''Response was not a ProofList'')"
    by (simp add: createLogEntry_disclosing)
next
  assume "Action s = ActionSigning \<and> jwt s = SignatureRequestorJwt signature"
  then show "if is_ProofList resp
       then \<not> isl (createLogEntry s now resp) \<and>
            SignedMessage (projr (createLogEntry s now resp)) = Message signature \<and>
            SignedMessageType (projr (createLogEntry s now resp)) = MessageType signature
       else createLogEntry s now resp = Inl (Error ''Response was not a ProofList'')"
    by (simp add: createLogEntry_signing)
next
  assume "Action s = ActionIssuing \<and> jwt s = IdentityProviderJwt issuance"
  then show "if is_IssueCommitmentMessage resp
       then \<not> isl (createLogEntry s now resp) \<and>
            Received (projr (createLogEntry s now resp)) =
              map_of (rev (resolved_credentials (credManager_ConfigurationStore s)
                (Credentials issuance)))
       else createLogEntry s now resp =
              Inl (Error ''Response was not a *IssueCommitmentMessage'')"
    by (simp add: createLogEntry_issuing)
next
  assume "Action s \<noteq> ActionSigning \<and> Action s \<noteq> ActionDisclosing \<and> Action s \<noteq> ActionIssuing"
  then show "createLogEntry s now resp = Inl (Error ''Invalid log type'')"
    by (simp add: createLogEntry_other)
qed

theorem createLogEntry_failures_witness:
  "Action disclosing_session = ActionDisclosing \<and> \<not> is_ProofList OtherValue \<and>
   createLogEntry disclosing_session 0 OtherValue = Inl (Error ''Response was not a ProofList'') \<and>
   Action signing_session = ActionSigning \<and> is_ProofList (ProofList []) \<and>
   \<not> isl (createLogEntry signing_session 0 (ProofList [])) \<and>
   SignedMessage (projr (createLogEntry signing_session 0 (ProofList []))) = ''message'' \<and>
   Action issuing_session = ActionIssuing \<and>
   createLogEntry issuing_session 0 (ProofList []) =
     Inl (Error ''Response was not a *IssueCommitmentMessage'') \<and>
   \<not> isl (createLogEntry issuing_session 0 (IssueCommitmentMessage_ptr \<lparr>Proofs = []\<rparr>)) \<and>
   Received (projr (createLogEntry issuing_session 0 (IssueCommitmentMessage_ptr \<lparr>Proofs = []\<rparr>))) =
     [''irma-demo.RU.studentCard'' \<mapsto> [translated ''Radboud'', translated ''s1234567'']] \<and>
   createLogEntry (disclosing_session\<lparr>Action := actionRemoval\<rparr>) 0 (ProofList []) =
     Inl (Error ''Invalid log type'')"
proof -
  have shapes: "\<not> is_ProofList OtherValue" "is_ProofList (ProofList [])"
    "is_IssueCommitmentMessage (IssueCommitmentMessage_ptr \<lparr>Proofs = []\<rparr>)"
    "\<not> is_IssueCommitmentMessage (ProofList [])"
    by (simp_all add: is_ProofList_def is_IssueCommitmentMessage_def)
  have actions: "Action disclosing_session = ActionDisclosing"
    "Action signing_session = ActionSigning" "Action issuing_session = ActionIssuing"
    "jwt signing_session = SignatureRequestorJwt \<lparr>Message = ''message'', MessageType = ''STRING''\<rparr>"
    by (simp_all add: disclosing_session_def signing_session_def issuing_session_def)
  have issuance: "jwt issuing_session = IdentityProviderJwt \<lparr>Credentials =
        [\<lparr>CredentialTypeID = ''test.test.mijnirma'', CredentialRequest.Attributes = []\<rparr>,
         \<lparr>CredentialTypeID = ''irma-demo.RU.studentCard'',
          CredentialRequest.Attributes = [(''university'', ''Radboud''), (''studentID'', ''s1234567'')]\<rparr>]\<rparr>"
    by (simp add: issuing_session_def)
  have removal: "Action (disclosing_session\<lparr>Action := actionRemoval\<rparr>) \<noteq> ActionSigning"
    "Action (disclosing_session\<lparr>Action := actionRemoval\<rparr>) \<noteq> ActionDisclosing"
    "Action (disclosing_session\<lparr>Action := actionRemoval\<rparr>) \<noteq> ActionIssuing"
    by (simp_all add: actionRemoval_def ActionSigning_def ActionDisclosing_def ActionIssuing_def)
  have resolved: "map_of (rev (resolved_credentials (credManager_ConfigurationStore issuing_session)
        [\<lparr>CredentialTypeID = ''test.test.mijnirma'', CredentialRequest.Attributes = []\<rparr>,
         \<lparr>CredentialTypeID = ''irma-demo.RU.studentCard'',
          CredentialRequest.Attributes = [(''university'', ''Radboud''), (''studentID'', ''s1234567'')]\<rparr>])) =
      [''irma-demo.RU.studentCard'' \<mapsto> [translated ''Radboud'', translated ''s1234567'']]"
    by (simp add: issuing_session_def demo_store_def resolved_credentials_def
        List.map_filter_simps)
  show ?thesis
    using shapes actions issuance removal resolved
      createLogEntry_failures [of disclosing_session OtherValue 0]
      createLogEntry_failures [of signing_session "ProofList []" 0
        "\<lparr>Message = ''message'', MessageType = ''STRING''\<rparr>"]
      createLogEntry_failures [of issuing_session "ProofList []" 0 _
        "\<lparr>Credentials =
        [\<lparr>CredentialTypeID = ''test.test.mijnirma'', CredentialRequest.Attributes = []\<rparr>,
         \<lparr>CredentialTypeID = ''irma-demo.RU.studentCard'',
          CredentialRequest.Attributes = [(''university'', ''Radboud''), (''studentID'', ''s1234567'')]\<rparr>]\<rparr>"]
      createLogEntry_failures [of issuing_session
        "IssueCommitmentMessage_ptr \<lparr>Proofs = []\<rparr>" 0 _
        "\<lparr>Credentials =
        [\<lparr>CredentialTypeID = ''test.test.mijnirma'', CredentialRequest.Attributes = []\<rparr>,
         \<lparr>CredentialTypeID = ''irma-demo.RU.studentCard'',
          CredentialRequest.Attributes = [(''university'', ''Radboud''), (''studentID'', ''s1234567'')]\<rparr>]\<rparr>"]
      createLogEntry_failures [of "disclosing_session\<lparr>Action := actionRemoval\<rparr>"
        "ProofList []" 0]
    by (simp add: Action_distinct)
qed

lemma disclosure_proofs_append:
  "disclosure_proofs (xs @ ys) = disclosure_proofs xs @ disclosure_proofs ys"
  by (induction xs rule: disclosure_proofs.induct) simp_all

lemma createLogEntry_disclosed_filter:
  "createLogEntry_disclosed store (map ProofD_ptr (disclosure_proofs prooflist)) disclosed =
     createLogEntry_disclosed store prooflist disclosed"
  by (induction store prooflist disclosed rule: createLogEntry_disclosed.induct)
     (simp_all add: Let_def fun_upd_def)

lemma createLogEntry_disclosed_map_of:
  "createLogEntry_disclosed store prooflist disclosed =
     disclosed ++ map_of (rev (map (\<lambda>d. (proof_credential store d, createLogEntry_attributes d))
       (disclosure_proofs prooflist)))"
proof (induction prooflist arbitrary: disclosed)
  case Nil
  show ?case by simp
next
  case (Cons p prooflist)
  show ?case
  proof (cases p)
    case (ProofD_ptr proofd)
    let ?later = "map_of (rev (map (\<lambda>d. (proof_credential store d, createLogEntry_attributes d))
       (disclosure_proofs prooflist)))"
    have step: "createLogEntry_disclosed store (ProofD_ptr proofd # prooflist) disclosed =
        createLogEntry_disclosed store prooflist
          (disclosed(proof_credential store proofd \<mapsto> createLogEntry_attributes proofd))"
      by (simp add: Let_def proof_credential_def)
    have dps: "disclosure_proofs (ProofD_ptr proofd # prooflist) =
        proofd # disclosure_proofs prooflist"
      by simp
    have "disclosed(proof_credential store proofd \<mapsto> createLogEntry_attributes proofd) ++ ?later =
        disclosed ++ ([proof_credential store proofd \<mapsto> createLogEntry_attributes proofd] ++ ?later)"
      by (simp add: map_add_assoc [symmetric] map_add_upd)
    also have "\<dots> = disclosed ++ map_of (rev (map (\<lambda>d. (proof_credential store d,
        createLogEntry_attributes d)) (proofd # disclosure_proofs prooflist)))"
      by (simp add: map_of_append)
    finally show ?thesis
      unfolding ProofD_ptr step dps Cons.IH .
  next
    case ProofOther
    then show ?thesis by (simp add: Cons.IH)
  qed
qed

lemma createLogEntry_Inr_Disclosed:
  assumes "createLogEntry s now resp = Inr entry"
  shows "Disclosed entry =
     createLogEntry_disclosed (credManager_ConfigurationStore s) (response_proofs resp) Map.empty"
  using assms
  by (auto simp: createLogEntry_def Let_def createLogEntry_ProofList_def
      createLogEntry_finish_def response_proofs_def
      split: if_splits RequestorJwt.splits Response.splits)

lemma map_of_rev_last:
  assumes "k \<notin> fst ` set later"
  shows "map_of (rev (earlier @ (k, v) # later)) k = Some v"
proof -
  have "map_of (rev later) k = None"
    using assms by (simp add: map_of_eq_None_iff)
  then show ?thesis
    by (simp add: map_add_def)
qed

lemma map_of_rev_attributes:
  assumes "map_of (rev (map (\<lambda>d. (proof_credential store d, createLogEntry_attributes d)) ds)) ident = Some m"
  shows "\<exists>proofd\<in>set ds. proof_credential store proofd = ident \<and> m = createLogEntry_attributes proofd"
  using map_of_SomeD [OF assms] by auto

lemma nat_bytes_0: "nat_bytes 0 = []"
  by (simp add: nat_bytes.simps)

lemma nat_bytes_numeral:
  "nat_bytes (numeral k) = nat_bytes (numeral k div 256) @ [char_of (numeral k mod 256 :: nat)]"
  by (subst nat_bytes.simps) simp

lemma Bytes_s1234567: "Bytes 8300470783721158199 = ''s1234567''"
  by (simp add: Bytes_def nat_bytes_0 nat_bytes_numeral char_of_def bit_0)

text \<open>
  C7, as amended. \<open>Disclosed\<close> holds one map for each credential type, and a
  disclosure proof replaces the map that an earlier proof of the same credential type
  has left. So for a disclosure proof that no later disclosure proof of the list shares
  its credential type with, every disclosed attribute at an index other than 1 is found
  in \<open>Disclosed\<close> under the credential type and the index, as the string of its bytes
  under both language tags. Every map in \<open>Disclosed\<close> is that of a disclosure proof
  of the list, has no key 1, and holds nothing else; proofs that are not disclosure
  proofs contribute nothing.
\<close>

theorem createLogEntry_Disclosed:
  assumes "createLogEntry s now resp = Inr entry"
  shows
    "(response_proofs resp = earlier @ ProofD_ptr proofd # later \<and>
      proof_credential (credManager_ConfigurationStore s) proofd \<notin>
        proof_credential (credManager_ConfigurationStore s) ` set (disclosure_proofs later) \<and>
      i \<noteq> 1 \<and> ADisclosed proofd i = Some attr \<longrightarrow>
        (\<exists>m. Disclosed entry (proof_credential (credManager_ConfigurationStore s) proofd) = Some m \<and>
             m i = Some [''en'' \<mapsto> Bytes attr, ''nl'' \<mapsto> Bytes attr])) \<and>
     (Disclosed entry ident = Some attrs \<longrightarrow>
        attrs 1 = None \<and>
        (\<exists>d\<in>set (disclosure_proofs (response_proofs resp)).
           proof_credential (credManager_ConfigurationStore s) d = ident \<and>
           (\<forall>j. attrs j =
              (if j = 1 then None
               else map_option (\<lambda>a. [''en'' \<mapsto> Bytes a, ''nl'' \<mapsto> Bytes a]) (ADisclosed d j))))) \<and>
     Disclosed entry =
       createLogEntry_disclosed (credManager_ConfigurationStore s)
         (map ProofD_ptr (disclosure_proofs (response_proofs resp))) Map.empty"
proof -
  let ?store = "credManager_ConfigurationStore s"
  let ?pair = "\<lambda>d. (proof_credential ?store d, createLogEntry_attributes d)"
  have D: "Disclosed entry = map_of (rev (map ?pair (disclosure_proofs (response_proofs resp))))"
    using createLogEntry_Inr_Disclosed [OF assms]
    by (simp add: createLogEntry_disclosed_map_of)
  have attributes: "createLogEntry_attributes d j =
      (if j = 1 then None
       else map_option (\<lambda>a. [''en'' \<mapsto> Bytes a, ''nl'' \<mapsto> Bytes a]) (ADisclosed d j))" for d j
    by (simp add: createLogEntry_attributes_def translated_def split: option.splits)
  have first: "\<exists>m. Disclosed entry (proof_credential ?store proofd) = Some m \<and>
             m i = Some [''en'' \<mapsto> Bytes attr, ''nl'' \<mapsto> Bytes attr]"
    if split: "response_proofs resp = earlier @ ProofD_ptr proofd # later"
      and last: "proof_credential ?store proofd \<notin> proof_credential ?store ` set (disclosure_proofs later)"
      and i: "i \<noteq> 1" "ADisclosed proofd i = Some attr"
  proof -
    have eq: "map ?pair (disclosure_proofs (response_proofs resp)) =
        map ?pair (disclosure_proofs earlier) @
        (proof_credential ?store proofd, createLogEntry_attributes proofd) #
        map ?pair (disclosure_proofs later)"
      by (simp add: split disclosure_proofs_append)
    have notin: "proof_credential ?store proofd \<notin> fst ` set (map ?pair (disclosure_proofs later))"
      using last by (simp add: image_image)
    have "Disclosed entry (proof_credential ?store proofd) =
        Some (createLogEntry_attributes proofd)"
      unfolding D eq by (rule map_of_rev_last [OF notin])
    then show ?thesis
      using i by (simp add: attributes)
  qed
  have second: "attrs 1 = None \<and>
        (\<exists>d\<in>set (disclosure_proofs (response_proofs resp)).
           proof_credential ?store d = ident \<and>
           (\<forall>j. attrs j =
              (if j = 1 then None
               else map_option (\<lambda>a. [''en'' \<mapsto> Bytes a, ''nl'' \<mapsto> Bytes a]) (ADisclosed d j))))"
    if "Disclosed entry ident = Some attrs"
  proof -
    from that obtain d where d: "d \<in> set (disclosure_proofs (response_proofs resp))"
      "proof_credential ?store d = ident" "attrs = createLogEntry_attributes d"
      unfolding D using map_of_rev_attributes by blast
    have "attrs 1 = None"
      by (simp add: d(3) attributes)
    moreover have "\<forall>j. attrs j =
              (if j = 1 then None
               else map_option (\<lambda>a. [''en'' \<mapsto> Bytes a, ''nl'' \<mapsto> Bytes a]) (ADisclosed d j))"
      unfolding d(3) using attributes by blast
    ultimately show ?thesis
      using d(1,2) by blast
  qed
  have third: "Disclosed entry =
       createLogEntry_disclosed ?store
         (map ProofD_ptr (disclosure_proofs (response_proofs resp))) Map.empty"
    using createLogEntry_Inr_Disclosed [OF assms] by (simp add: createLogEntry_disclosed_filter)
  show ?thesis
  proof (intro conjI impI)
    assume "response_proofs resp = earlier @ ProofD_ptr proofd # later \<and>
      proof_credential ?store proofd \<notin> proof_credential ?store ` set (disclosure_proofs later) \<and>
      i \<noteq> 1 \<and> ADisclosed proofd i = Some attr"
    then show "\<exists>m. Disclosed entry (proof_credential ?store proofd) = Some m \<and>
             m i = Some [''en'' \<mapsto> Bytes attr, ''nl'' \<mapsto> Bytes attr]"
      using first by blast
  next
    assume "Disclosed entry ident = Some attrs"
    then show "attrs 1 = None" using second by blast
  next
    assume "Disclosed entry ident = Some attrs"
    then show "\<exists>d\<in>set (disclosure_proofs (response_proofs resp)).
           proof_credential ?store d = ident \<and>
           (\<forall>j. attrs j =
              (if j = 1 then None
               else map_option (\<lambda>a. [''en'' \<mapsto> Bytes a, ''nl'' \<mapsto> Bytes a]) (ADisclosed d j)))"
      using second by blast
  next
    show "Disclosed entry =
       createLogEntry_disclosed ?store
         (map ProofD_ptr (disclosure_proofs (response_proofs resp))) Map.empty"
      by (rule third)
  qed
qed

text \<open>
  The scenario of the specification: a disclosing session whose proof list holds one
  disclosure proof of a student card with the bytes \<open>s1234567\<close> at index 2.
\<close>

theorem createLogEntry_Disclosed_witness:
  "\<not> isl (createLogEntry disclosing_session 0 (ProofList [ProofOther, ProofD_ptr studentCard_proof])) \<and>
   proof_credential demo_store studentCard_proof = ''irma-demo.RU.studentCard'' \<and>
   ADisclosed studentCard_proof 2 = Some 8300470783721158199 \<and>
   Bytes 8300470783721158199 = ''s1234567'' \<and>
   the (Disclosed (projr (createLogEntry disclosing_session 0
          (ProofList [ProofOther, ProofD_ptr studentCard_proof])))
        ''irma-demo.RU.studentCard'') 2 =
     Some [''en'' \<mapsto> ''s1234567'', ''nl'' \<mapsto> ''s1234567''] \<and>
   the (Disclosed (projr (createLogEntry disclosing_session 0
          (ProofList [ProofOther, ProofD_ptr studentCard_proof])))
        ''irma-demo.RU.studentCard'') 1 = None"
proof -
  let ?resp = "ProofList [ProofOther, ProofD_ptr studentCard_proof]"
  have store: "credManager_ConfigurationStore disclosing_session = demo_store"
    by (simp add: disclosing_session_def)
  obtain entry where run: "createLogEntry disclosing_session 0 ?resp = Inr entry"
    by (simp add: createLogEntry_disclosing disclosing_session_def is_ProofList_def)
  have proofs: "response_proofs ?resp = [ProofOther] @ ProofD_ptr studentCard_proof # []"
    by (simp add: response_proofs_def)
  have credential: "proof_credential demo_store studentCard_proof = ''irma-demo.RU.studentCard''"
    by (simp add: proof_credential_def demo_store_def studentCard_proof_def)
  have last: "proof_credential demo_store studentCard_proof \<notin>
      proof_credential demo_store ` set (disclosure_proofs [])"
    by simp
  have attr: "ADisclosed studentCard_proof 2 = Some 8300470783721158199"
    by (simp add: studentCard_proof_def)
  note inst = createLogEntry_Disclosed [OF run, unfolded store,
      where earlier = "[ProofOther]" and proofd = studentCard_proof and later = "[]"
        and i = 2 and attr = 8300470783721158199 and ident = "''irma-demo.RU.studentCard''"]
  have hyp: "response_proofs ?resp = [ProofOther] @ ProofD_ptr studentCard_proof # [] \<and>
      proof_credential demo_store studentCard_proof \<notin>
        proof_credential demo_store ` set (disclosure_proofs []) \<and>
      (2::int) \<noteq> 1 \<and> ADisclosed studentCard_proof 2 = Some 8300470783721158199"
    using proofs last attr by simp
  from inst [THEN conjunct1, THEN mp, OF hyp]
  obtain m where m: "Disclosed entry ''irma-demo.RU.studentCard'' = Some m"
    "m 2 = Some [''en'' \<mapsto> Bytes 8300470783721158199, ''nl'' \<mapsto> Bytes 8300470783721158199]"
    unfolding credential by blast
  from inst [THEN conjunct2, THEN conjunct1, THEN mp, OF m(1)] have "m 1 = None"
    by (rule conjunct1)
  then show ?thesis
    using run m credential attr by (simp add: Bytes_s1234567)
qed

text \<open>
  Two disclosure proofs of the same credential type: the attribute that the first one
  discloses at index 2 is not in \<open>Disclosed\<close>, which holds the map of the second.
\<close>

theorem createLogEntry_Disclosed_counterexample:
  "\<not> isl (createLogEntry disclosing_session 0
            (ProofList [ProofD_ptr studentCard_proof, ProofD_ptr studentCard_proof'])) \<and>
   proof_credential demo_store studentCard_proof = ''irma-demo.RU.studentCard'' \<and>
   ADisclosed studentCard_proof 2 = Some 8300470783721158199 \<and>
   Disclosed (projr (createLogEntry disclosing_session 0
          (ProofList [ProofD_ptr studentCard_proof, ProofD_ptr studentCard_proof'])))
        ''irma-demo.RU.studentCard'' \<noteq> None \<and>
   the (Disclosed (projr (createLogEntry disclosing_session 0
          (ProofList [ProofD_ptr studentCard_proof, ProofD_ptr studentCard_proof'])))
        ''irma-demo.RU.studentCard'') 2 = None"
  by (simp add: createLogEntry_disclosing disclosing_session_def is_ProofList_def
      response_proofs_def proof_credential_def demo_store_def studentCard_proof_def
      studentCard_proof'_def createLogEntry_attributes_def Let_def)

section \<open>Properties of the codec\<close>

lemma UnmarshalJSON_keys_map_of:
  "map_of (UnmarshalJSON_keys wire keys) =
     map_of keys ++ map_of (rev (map (\<lambda>(iss, count). (NewIssuerIdentifier iss, count)) wire))"
proof (induction wire arbitrary: keys)
  case Nil
  show ?case by simp
next
  case (Cons entry wire)
  obtain iss count where entry: "entry = (iss, count)"
    by (cases entry)
  let ?later = "map_of (rev (map (\<lambda>(iss, count). (NewIssuerIdentifier iss, count)) wire))"
  have "map_of (UnmarshalJSON_keys (entry # wire) keys) =
      (map_of keys)(NewIssuerIdentifier iss \<mapsto> count) ++ ?later"
    unfolding entry UnmarshalJSON_keys.simps Cons.IH update_conv' ..
  also have "\<dots> = map_of keys ++ ([NewIssuerIdentifier iss \<mapsto> count] ++ ?later)"
    by (simp add: map_add_assoc [symmetric] map_add_upd)
  also have "\<dots> = map_of keys ++
      map_of (rev (map (\<lambda>(iss, count). (NewIssuerIdentifier iss, count)) (entry # wire)))"
    unfolding entry by (simp add: map_of_append)
  finally show ?case .
qed

lemma MarshalJSON_keys_map_of:
  "map_of (MarshalJSON_keys keys wire) =
     map_of wire ++ map_of (rev (map (\<lambda>(iss, count). (String iss, count)) keys))"
proof (induction keys arbitrary: wire)
  case Nil
  show ?case by simp
next
  case (Cons entry keys)
  obtain iss count where entry: "entry = (iss, count)"
    by (cases entry)
  let ?later = "map_of (rev (map (\<lambda>(iss, count). (String iss, count)) keys))"
  have "map_of (MarshalJSON_keys (entry # keys) wire) =
      (map_of wire)(String iss \<mapsto> count) ++ ?later"
    unfolding entry MarshalJSON_keys.simps Cons.IH update_conv' ..
  also have "\<dots> = map_of wire ++ ([String iss \<mapsto> count] ++ ?later)"
    by (simp add: map_add_assoc [symmetric] map_add_upd)
  also have "\<dots> = map_of wire ++
      map_of (rev (map (\<lambda>(iss, count). (String iss, count)) (entry # keys)))"
    unfolding entry by (simp add: map_of_append)
  finally show ?case .
qed

lemma map_of_rev_distinct:
  assumes "distinct (map fst xs)"
  shows "map_of (rev xs) = map_of xs"
proof -
  have "distinct (map fst (rev xs))"
    using assms by (simp add: rev_map [symmetric])
  then show ?thesis
    using assms map_of_inject_set [of "rev xs" xs] by simp
qed

lemma UnmarshalJSON_keys_distinct:
  assumes "distinct (map fst wire)"
  shows "map_of (UnmarshalJSON_keys wire []) = map_of wire"
proof -
  have "map (\<lambda>(iss, count). (NewIssuerIdentifier iss, count)) wire = wire"
    by (induction wire) (auto simp: NewIssuerIdentifier_def)
  then show ?thesis
    using assms by (simp add: UnmarshalJSON_keys_map_of map_of_rev_distinct)
qed

lemma MarshalJSON_keys_distinct:
  assumes "distinct (map fst keys)"
  shows "map_of (MarshalJSON_keys keys []) = map_of keys"
proof -
  have "map (\<lambda>(iss, count). (String iss, count)) keys = keys"
    by (induction keys) (auto simp: String_def)
  then show ?thesis
    using assms by (simp add: MarshalJSON_keys_map_of map_of_rev_distinct)
qed

lemma MarshalJSON_keys_keeps_distinct:
  "distinct (map fst wire) \<Longrightarrow> distinct (map fst (MarshalJSON_keys keys wire))"
  by (induction keys arbitrary: wire) (auto simp: distinct_update)

text \<open>
  C8, as amended. Decoding has one path: the encoded issuer-key counters are keyed by
  strings, each key is made an issuer identifier by \<open>NewIssuerIdentifier\<close> and keeps
  its counter; no key is read as an integer code, and inputs that spell the key of a
  counter differently decode to different mappings. Encoding emits every counter under
  the string form of its issuer identifier, and decoding what was encoded gives the
  mapping back.
\<close>

theorem issuer_key_counters_codec:
  "(distinct (map fst wire) \<longrightarrow>
      map_of (UnmarshalJSON_keys wire []) (NewIssuerIdentifier key) = map_of wire key) \<and>
   (key \<noteq> key' \<longrightarrow>
      map_of (UnmarshalJSON_keys [(key, count)] []) \<noteq>
      map_of (UnmarshalJSON_keys [(key', count)] [])) \<and>
   (distinct (map fst keys) \<longrightarrow>
      map_of (MarshalJSON_keys keys []) (String iss) = map_of keys iss \<and>
      map_of (UnmarshalJSON_keys (MarshalJSON_keys keys []) []) = map_of keys)"
proof (intro conjI impI)
  assume "distinct (map fst wire)"
  then show "map_of (UnmarshalJSON_keys wire []) (NewIssuerIdentifier key) = map_of wire key"
    by (simp add: UnmarshalJSON_keys_distinct NewIssuerIdentifier_def)
next
  assume "key \<noteq> key'"
  then have "map_of (UnmarshalJSON_keys [(key, count)] []) key \<noteq>
      map_of (UnmarshalJSON_keys [(key', count)] []) key"
    by (simp add: NewIssuerIdentifier_def)
  then show "map_of (UnmarshalJSON_keys [(key, count)] []) \<noteq>
      map_of (UnmarshalJSON_keys [(key', count)] [])"
    by metis
next
  assume "distinct (map fst keys)"
  then show "map_of (MarshalJSON_keys keys []) (String iss) = map_of keys iss"
    by (simp add: MarshalJSON_keys_distinct String_def)
next
  assume keys: "distinct (map fst keys)"
  have "distinct (map fst (MarshalJSON_keys keys []))"
    by (rule MarshalJSON_keys_keeps_distinct) simp
  then show "map_of (UnmarshalJSON_keys (MarshalJSON_keys keys []) []) = map_of keys"
    using keys by (simp add: UnmarshalJSON_keys_distinct MarshalJSON_keys_distinct)
qed

theorem issuer_key_counters_codec_witness:
  "distinct (map fst [(''irma-demo.RU'', 3::int), (''irma-demo.MijnOverheid'', 1)]) \<and>
   ''irma-demo.RU'' \<noteq> ''1'' \<and>
   map_of (UnmarshalJSON_keys [(''irma-demo.RU'', 3)] []) \<noteq>
     map_of (UnmarshalJSON_keys [(''1'', 3)] []) \<and>
   map_of (UnmarshalJSON_keys [(''irma-demo.RU'', 3), (''irma-demo.MijnOverheid'', 1)] [])
     (NewIssuerIdentifier ''irma-demo.RU'') = Some 3 \<and>
   map_of (MarshalJSON_keys [(''irma-demo.RU'', 3), (''irma-demo.MijnOverheid'', 1)] [])
     (String ''irma-demo.MijnOverheid'') = Some 1 \<and>
   map_of (UnmarshalJSON_keys
     (MarshalJSON_keys [(''irma-demo.RU'', 3), (''irma-demo.MijnOverheid'', 1)] []) []) =
     map_of [(''irma-demo.RU'', 3), (''irma-demo.MijnOverheid'', 1)]"
proof -
  have d: "distinct (map fst [(''irma-demo.RU'', 3::int), (''irma-demo.MijnOverheid'', 1)])"
    by simp
  show ?thesis
    using d issuer_key_counters_codec [of "[(''irma-demo.RU'', 3), (''irma-demo.MijnOverheid'', 1)]"
        "''irma-demo.RU''" "''1''" 3 "[(''irma-demo.RU'', 3), (''irma-demo.MijnOverheid'', 1)]"
        "''irma-demo.MijnOverheid''"]
    by simp
qed

text \<open>
  An input keyed by the integer code \<open>1\<close> and an input keyed by the string form
  \<open>irma-demo.RU\<close> do not decode to the same mapping: the first yields an issuer
  identifier \<open>1\<close>.
\<close>

theorem issuer_key_counters_counterexample:
  "map_of (UnmarshalJSON_keys [(''1'', 7)] []) ''1'' = Some 7 \<and>
   map_of (UnmarshalJSON_keys [(''1'', 7)] []) ''irma-demo.RU'' = None \<and>
   map_of (UnmarshalJSON_keys [(''irma-demo.RU'', 7)] []) ''irma-demo.RU'' = Some 7 \<and>
   map_of (UnmarshalJSON_keys [(''1'', 7)] []) \<noteq>
     map_of (UnmarshalJSON_keys [(''irma-demo.RU'', 7)] [])"
proof -
  have a: "map_of (UnmarshalJSON_keys [(''1'', 7)] []) ''irma-demo.RU'' = None"
    and b: "map_of (UnmarshalJSON_keys [(''irma-demo.RU'', 7)] []) ''irma-demo.RU'' = Some 7"
    and c: "map_of (UnmarshalJSON_keys [(''1'', 7)] []) ''1'' = Some 7"
    by (simp_all add: NewIssuerIdentifier_def)
  from a b have "map_of (UnmarshalJSON_keys [(''1'', 7)] []) \<noteq>
     map_of (UnmarshalJSON_keys [(''irma-demo.RU'', 7)] [])"
    by (metis option.distinct(1))
  with a b c show ?thesis by simp
qed

lemma MarshalJSON_rawResponse_frame:
  assumes "MarshalJSON_rawResponse js entry = Inr entry'"
  shows "entry' = entry\<lparr>rawResponse := rawResponse entry'\<rparr> \<and>
     (rawResponse entry' \<noteq> rawResponse entry \<longrightarrow>
        rawResponse entry = [] \<and> response entry \<noteq> NilValue \<and>
        Marshal_Response js (response entry) = Inr (rawResponse entry')) \<and>
     (rawResponse entry \<noteq> [] \<longrightarrow> entry' = entry)"
  using assms
  by (auto simp: MarshalJSON_rawResponse_def split: if_splits sum.splits)

text \<open>
  C10. \<open>MarshalJSON\<close> changes at most the raw response of the entry: the other nine
  fields, the typed response among them, are as before; the raw response changes only
  when it was empty and a typed response is present, and then it becomes the
  serialization of the typed response; an entry whose raw response is not empty is
  left as it is.
\<close>

theorem MarshalJSON_frame:
  assumes "MarshalJSON js entry = (result, entry')"
  shows "Type entry' = Type entry \<and> Time entry' = Time entry \<and>
     SessionInfo entry' = SessionInfo entry \<and> Disclosed entry' = Disclosed entry \<and>
     Received entry' = Received entry \<and> Removed entry' = Removed entry \<and>
     SignedMessage entry' = SignedMessage entry \<and>
     SignedMessageType entry' = SignedMessageType entry \<and>
     response entry' = response entry \<and>
     (rawResponse entry' \<noteq> rawResponse entry \<longrightarrow>
        rawResponse entry = [] \<and> response entry \<noteq> NilValue \<and>
        Marshal_Response js (response entry) = Inr (rawResponse entry')) \<and>
     (rawResponse entry \<noteq> [] \<longrightarrow> entry' = entry)"
proof (cases "MarshalJSON_rawResponse js entry")
  case (Inl err)
  with assms have "entry' = entry"
    by (simp add: MarshalJSON_def)
  then show ?thesis by simp
next
  case (Inr entry1)
  with assms have "entry' = entry1"
    by (simp add: MarshalJSON_def)
  with MarshalJSON_rawResponse_frame [OF Inr]
  have frame: "entry' = entry\<lparr>rawResponse := rawResponse entry'\<rparr>"
    and changed: "rawResponse entry' \<noteq> rawResponse entry \<longrightarrow>
        rawResponse entry = [] \<and> response entry \<noteq> NilValue \<and>
        Marshal_Response js (response entry) = Inr (rawResponse entry')"
    and kept: "rawResponse entry \<noteq> [] \<longrightarrow> entry' = entry"
    by simp_all
  have "Type entry' = Type entry \<and> Time entry' = Time entry \<and>
     SessionInfo entry' = SessionInfo entry \<and> Disclosed entry' = Disclosed entry \<and>
     Received entry' = Received entry \<and> Removed entry' = Removed entry \<and>
     SignedMessage entry' = SignedMessage entry \<and>
     SignedMessageType entry' = SignedMessageType entry \<and>
     response entry' = response entry"
    by (subst frame, simp)+
  with changed kept show ?thesis by blast
qed

theorem MarshalJSON_frame_witness:
  "rawResponse logged_disclosure = [] \<and> response logged_disclosure \<noteq> NilValue \<and>
   Marshal_Response stub_json (response logged_disclosure) = Inr ''[{}]'' \<and>
   MarshalJSON stub_json logged_disclosure =
     (Inr ''{}'', logged_disclosure\<lparr>rawResponse := ''[{}]''\<rparr>) \<and>
   rawResponse (logged_disclosure\<lparr>rawResponse := ''[1]''\<rparr>) \<noteq> [] \<and>
   snd (MarshalJSON stub_json (logged_disclosure\<lparr>rawResponse := ''[1]''\<rparr>)) =
     logged_disclosure\<lparr>rawResponse := ''[1]''\<rparr>"
proof -
  have built: "rawResponse logged_disclosure = []" "response logged_disclosure \<noteq> NilValue"
    by (simp_all add: logged_disclosure_def createLogEntry_disclosing disclosing_session_def
        is_ProofList_def)
  have run: "MarshalJSON stub_json logged_disclosure =
      (Inr ''{}'', logged_disclosure\<lparr>rawResponse := ''[{}]''\<rparr>)"
    using built by (simp add: MarshalJSON_def MarshalJSON_rawResponse_def stub_json_def)
  obtain result entry' where kept:
    "MarshalJSON stub_json (logged_disclosure\<lparr>rawResponse := ''[1]''\<rparr>) = (result, entry')"
    by (cases "MarshalJSON stub_json (logged_disclosure\<lparr>rawResponse := ''[1]''\<rparr>)")
  from MarshalJSON_frame [OF kept] have "entry' = logged_disclosure\<lparr>rawResponse := ''[1]''\<rparr>"
    by simp
  with kept built run MarshalJSON_frame [OF run] show ?thesis
    by (simp add: stub_json_def)
qed

lemma UnmarshalJSON_response:
  assumes "UnmarshalJSON js entry0 bytes = (None, entry)"
  shows "response entry = NilValue"
  using assms by (auto simp: UnmarshalJSON_def split: sum.splits option.splits)

lemma Unmarshal_ProofDSlice:
  "Unmarshal js data (ProofDSlice ds) =
     (Some (if checkValid js data then InvalidUnmarshalError else SyntaxError), ProofDSlice ds)"
  by (simp add: Unmarshal_def)

text \<open>
  The issuing branch hands the decoder a pointer: the response of a decoded issuing
  entry resolves to what the decoder reads from the raw response.
\<close>

lemma GetResponse_issuing:
  assumes "UnmarshalJSON js entry0 bytes = (None, entry)"
    and "Type entry = ActionIssuing"
    and "checkValid js (rawResponse entry)"
    and "Unmarshal_IssueCommitmentMessage js (rawResponse entry) = Inr msg"
  shows "GetResponse js entry =
     (Inr (IssueCommitmentMessage_ptr msg), entry\<lparr>response := IssueCommitmentMessage_ptr msg\<rparr>)"
proof -
  have nil: "response entry = NilValue"
    by (rule UnmarshalJSON_response [OF assms(1)])
  have kind: "Type entry \<noteq> actionRemoval" "Type entry \<noteq> ActionSigning"
    "Type entry \<noteq> ActionDisclosing"
    using assms(2)
    by (simp_all add: actionRemoval_def ActionIssuing_def ActionSigning_def ActionDisclosing_def)
  show ?thesis
    using nil kind assms(2-4)
    by (simp add: GetResponse_def GetResponse_decode_def Unmarshal_def)
qed

text \<open>
  The other fields survive the round trip when the decoder of the envelope gives back
  the envelope that was encoded: the decoded entry has the fields of the original, its
  issuer-key counters as a mapping, and the encoded response as its raw response.
\<close>

lemma UnmarshalJSON_MarshalJSON_fields:
  assumes "MarshalJSON js entry = (Inr bytes, entry1)"
    and "Unmarshal_jsonLogEntry js bytes = Inr (MarshalJSON_envelope entry1)"
    and "SessionInfo entry = Some sessioninfo"
    and "distinct (map fst (Keys sessioninfo))"
  shows "\<exists>entry2 sessioninfo2.
     UnmarshalJSON js entry0 bytes = (None, entry2) \<and>
     Type entry2 = Type entry \<and> Time entry2 = Time entry \<and>
     SessionInfo entry2 = Some sessioninfo2 \<and>
     Jwt sessioninfo2 = Jwt sessioninfo \<and> Nonce sessioninfo2 = Nonce sessioninfo \<and>
     Context sessioninfo2 = Context sessioninfo \<and>
     map_of (Keys sessioninfo2) = map_of (Keys sessioninfo) \<and>
     Disclosed entry2 = Disclosed entry \<and> Received entry2 = Received entry \<and>
     Removed entry2 = Removed entry \<and> SignedMessage entry2 = SignedMessage entry \<and>
     SignedMessageType entry2 = SignedMessageType entry \<and>
     rawResponse entry2 = rawResponse entry1"
proof -
  from assms(1) obtain same: "Type entry1 = Type entry" "Time entry1 = Time entry"
    "SessionInfo entry1 = SessionInfo entry" "Disclosed entry1 = Disclosed entry"
    "Received entry1 = Received entry" "Removed entry1 = Removed entry"
    "SignedMessage entry1 = SignedMessage entry"
    "SignedMessageType entry1 = SignedMessageType entry"
    by (auto simp: MarshalJSON_def MarshalJSON_rawResponse_def split: sum.splits if_splits)
  have "distinct (map fst (MarshalJSON_keys (Keys sessioninfo) []))"
    by (rule MarshalJSON_keys_keeps_distinct) simp
  then have keys: "map_of (UnmarshalJSON_keys (MarshalJSON_keys (Keys sessioninfo) []) []) =
      map_of (Keys sessioninfo)"
    using assms(4) by (simp add: UnmarshalJSON_keys_distinct MarshalJSON_keys_distinct)
  show ?thesis
    using assms(2,3) same keys
    by (simp add: UnmarshalJSON_def MarshalJSON_envelope_def)
qed

text \<open>
  C3. The round trip does not give the response of a disclosing or signing entry back.
  A decoded entry has no typed response; \<open>GetResponse\<close> then makes the response an
  empty slice of disclosure proofs and hands this slice itself, not a pointer to it, to
  the JSON decoder, which refuses it. So for every codec the resolution of the response
  of a decoded disclosing or signing entry fails, whatever was encoded, and it leaves
  the empty slice behind, which a second call returns as the response.
\<close>

theorem GetResponse_after_UnmarshalJSON:
  assumes "UnmarshalJSON js entry0 bytes = (None, entry)"
    and "Type entry = ActionDisclosing \<or> Type entry = ActionSigning"
  shows "GetResponse js entry =
       (Inl (if checkValid js (rawResponse entry) then InvalidUnmarshalError else SyntaxError),
        entry\<lparr>response := ProofDSlice []\<rparr>) \<and>
     fst (GetResponse js (snd (GetResponse js entry))) = Inr (ProofDSlice [])"
proof -
  have nil: "response entry = NilValue"
    by (rule UnmarshalJSON_response [OF assms(1)])
  have removal: "Type entry \<noteq> actionRemoval"
    using assms(2) by (auto simp: actionRemoval_def ActionDisclosing_def ActionSigning_def)
  have first: "GetResponse js entry =
       (Inl (if checkValid js (rawResponse entry) then InvalidUnmarshalError else SyntaxError),
        entry\<lparr>response := ProofDSlice []\<rparr>)"
    using assms(2) nil removal
    by (auto simp: GetResponse_def GetResponse_decode_def Unmarshal_ProofDSlice)
  have "GetResponse js (entry\<lparr>response := ProofDSlice []\<rparr>) =
      (Inr (ProofDSlice []), entry\<lparr>response := ProofDSlice []\<rparr>)"
    by (simp add: GetResponse_def)
  with first show ?thesis by simp
qed

text \<open>
  The round trip of the entry of a disclosing session with one disclosure proof
  through the codec of the scenarios.
\<close>

theorem GetResponse_after_UnmarshalJSON_witness:
  "response logged_disclosure = ProofList [ProofD_ptr studentCard_proof] \<and>
   fst (MarshalJSON stub_json logged_disclosure) = Inr ''{}'' \<and>
   fst (UnmarshalJSON stub_json logged_disclosure ''{}'') = None \<and>
   Type (snd (UnmarshalJSON stub_json logged_disclosure ''{}'')) = ActionDisclosing \<and>
   rawResponse (snd (UnmarshalJSON stub_json logged_disclosure ''{}'')) = ''[{}]'' \<and>
   fst (GetResponse stub_json (snd (UnmarshalJSON stub_json logged_disclosure ''{}''))) =
     Inl InvalidUnmarshalError"
proof -
  have built: "logged_disclosure =
      \<lparr>Type = ActionDisclosing, Time = 0, SessionInfo = Some demo_info,
       Disclosed = createLogEntry_disclosed demo_store [ProofD_ptr studentCard_proof] Map.empty,
       Received = Map.empty, Removed = Map.empty,
       SignedMessage = [], SignedMessageType = [],
       response = ProofList [ProofD_ptr studentCard_proof], rawResponse = []\<rparr>"
    by (simp add: logged_disclosure_def createLogEntry_disclosing disclosing_session_def
        is_ProofList_def response_proofs_def)
  have encoded: "fst (MarshalJSON stub_json logged_disclosure) = Inr ''{}''"
    by (simp add: MarshalJSON_def MarshalJSON_rawResponse_def stub_json_def built)
  obtain entry where decoded:
    "UnmarshalJSON stub_json logged_disclosure ''{}'' = (None, entry)"
    and kind: "Type entry = ActionDisclosing" and raw: "rawResponse entry = ''[{}]''"
    by (simp add: UnmarshalJSON_def stub_json_def MarshalJSON_envelope_def built)
  have valid: "checkValid stub_json ''[{}]''"
    by (simp add: stub_json_def)
  from GetResponse_after_UnmarshalJSON [OF decoded] kind raw valid
  have "fst (GetResponse stub_json entry) = Inl InvalidUnmarshalError"
    by simp
  moreover have "response logged_disclosure = ProofList [ProofD_ptr studentCard_proof]"
    by (simp add: built)
  ultimately show ?thesis
    using encoded decoded kind raw by simp
qed

end
